theory Spec2Isabelle
  imports Complex_Main "HOL-Library.Sublist"
begin

section \<open>Python values, exceptions and the page's event log\<close>

text \<open>
  The values the modelled code stores and returns: Python's \<open>None\<close>, a \<open>str\<close> and a
  \<open>bytes\<close> object. A character of a \<^typ>\<open>string\<close> is one byte, so a text outside ASCII
  stands as its UTF-8 encoding.
\<close>

datatype pyval = PyNone | PyStr string | PyBytes string

text \<open>
  An exception is its class, as far as the \<open>except\<close> clauses of the code tell classes
  apart, and the text \<open>str(e)\<close> gives.
\<close>

datatype exn_class = AttributeError | KeyError | ImportError | RequestException | OtherError

datatype exn = Exn exn_class string

fun exn_text :: "exn \<Rightarrow> string" where
  "exn_text (Exn c m) = m"

fun exn_is :: "exn_class \<Rightarrow> exn \<Rightarrow> bool" where
  "exn_is c (Exn c' m) = (c' = c)"

text \<open>Running a step that may raise after another one.\<close>

definition and_then :: "exn + 'a \<Rightarrow> ('a \<Rightarrow> exn + 'b) \<Rightarrow> exn + 'b" where
  "and_then r f = (case r of Inl e \<Rightarrow> Inl e | Inr v \<Rightarrow> f v)"

text \<open>\<open>if v:\<close> for the values above.\<close>

fun truthy :: "pyval \<Rightarrow> bool" where
  "truthy PyNone = False"
| "truthy (PyStr s) = (s \<noteq> [])"
| "truthy (PyBytes b) = (b \<noteq> [])"

text \<open>
  What a run of the script puts on the page, in order: one event for each call of a
  Streamlit element, with the arguments the code passes. \<open>st.spinner\<close> leaves no event.
\<close>

datatype ui_event =
    StSubheader string
  | StWarning string
  | StError string
  | StInfo string
  | StSuccess string
  | StMarkdown string
  | StSelectbox string "string list"
  | StTextArea string string
  | StButton string
  | StFileUploader string "string list"
  | StCode pyval string
  | StHtml pyval
  | StImage string
  | StDownloadButton string pyval string string

text \<open>The pictographs of the labels, in UTF-8.\<close>

definition emoji_convert :: string where
  "emoji_convert = [CHR 0xF0, CHR 0x9F, CHR 0x94, CHR 0x84]"

definition emoji_package :: string where
  "emoji_package = [CHR 0xF0, CHR 0x9F, CHR 0x93, CHR 0xA6]"

definition emoji_check :: string where
  "emoji_check = [CHR 0xE2, CHR 0x9C, CHR 0x85]"

definition emoji_down :: string where
  "emoji_down = [CHR 0xE2, CHR 0xAC, CHR 0x87, CHR 0xEF, CHR 0xB8, CHR 0x8F]"

definition emoji_cross :: string where
  "emoji_cross = [CHR 0xE2, CHR 0x9D, CHR 0x8C]"

definition apostrophe :: string where
  "apostrophe = [CHR 0x27]"

definition newline :: string where
  "newline = [CHR 0x0A]"

section \<open>Strings\<close>

text \<open>
  A Python \<open>str\<close> is modelled by its UTF-8 bytes. The separators the code splits on are
  ASCII, so splitting and searching the bytes is splitting and searching the text.
\<close>

text \<open>
  Python's \<open>s.upper()\<close> and \<open>s.lower()\<close> follow the Unicode case mappings; the model
  takes them as parameters (\<open>str_upper\<close> and \<open>str_lower\<close>, with the libraries below).
  On a text of ASCII characters they are the two functions here, which change the
  letters \<open>a\<close> to \<open>z\<close> and \<open>A\<close> to \<open>Z\<close> and nothing else.
\<close>

definition upper_char :: "char \<Rightarrow> char" where
  "upper_char c =
     (case map_of (zip ''abcdefghijklmnopqrstuvwxyz'' ''ABCDEFGHIJKLMNOPQRSTUVWXYZ'') c of
        Some u \<Rightarrow> u
      | None \<Rightarrow> c)"

definition lower_char :: "char \<Rightarrow> char" where
  "lower_char c =
     (case map_of (zip ''ABCDEFGHIJKLMNOPQRSTUVWXYZ'' ''abcdefghijklmnopqrstuvwxyz'') c of
        Some l \<Rightarrow> l
      | None \<Rightarrow> c)"

definition ascii_upper :: "string \<Rightarrow> string" where
  "ascii_upper s = map upper_char s"

definition ascii_lower :: "string \<Rightarrow> string" where
  "ascii_lower s = map lower_char s"

text \<open>
  \<open>s.split(sep)\<close> for a separator that is not empty: the pieces between the
  occurrences of \<open>sep\<close>, found from the left and not overlapping.
\<close>

fun split_from :: "string \<Rightarrow> string \<Rightarrow> string \<Rightarrow> string list" where
  "split_from sep acc [] = [rev acc]"
| "split_from sep acc (c # cs) =
     (if sep \<noteq> [] \<and> prefix sep (c # cs)
      then rev acc # split_from sep [] (drop (length sep - 1) cs)
      else split_from sep (c # acc) cs)"

definition split :: "string \<Rightarrow> string \<Rightarrow> string list" where
  "split s sep = split_from sep [] s"

text \<open>\<open>s.replace(old, new)\<close> for an \<open>old\<close> that is not empty.\<close>

fun replace_from :: "string \<Rightarrow> string \<Rightarrow> string \<Rightarrow> string" where
  "replace_from old new [] = []"
| "replace_from old new (c # cs) =
     (if old \<noteq> [] \<and> prefix old (c # cs)
      then new @ replace_from old new (drop (length old - 1) cs)
      else c # replace_from old new cs)"

definition replace :: "string \<Rightarrow> string \<Rightarrow> string \<Rightarrow> string" where
  "replace s old new = replace_from old new s"

text \<open>\<open>sub in s\<close>.\<close>

fun contains :: "string \<Rightarrow> string \<Rightarrow> bool" where
  "contains sub [] = (sub = [])"
| "contains sub (c # cs) = (prefix sub (c # cs) \<or> contains sub cs)"

text \<open>\<open>sep.join(xs)\<close>.\<close>

fun join :: "string \<Rightarrow> string list \<Rightarrow> string" where
  "join sep [] = []"
| "join sep [x] = x"
| "join sep (x # y # ys) = x @ sep @ join sep (y # ys)"

text \<open>\<open>str(i)\<close> of an integer: its decimal digits.\<close>

fun digits :: "nat \<Rightarrow> string" where
  "digits n =
     (if n < 10 then [''0123456789'' ! n]
      else digits (n div 10) @ [''0123456789'' ! (n mod 10)])"

declare digits.simps [simp del]

definition str_int :: "int \<Rightarrow> string" where
  "str_int i = (if i < 0 then CHR ''-'' # digits (nat (- i)) else digits (nat i))"

text \<open>
  The characters \<open>str.strip()\<close> removes are the 29 code points Python counts as white
  space, here in UTF-8: the ASCII ones (tab to carriage return, the four separators
  \<open>0x1C\<close> to \<open>0x1F\<close>, the space), \<open>U+0085\<close>, \<open>U+00A0\<close>, \<open>U+1680\<close>, \<open>U+2000\<close> to
  \<open>U+200A\<close>, \<open>U+2028\<close>, \<open>U+2029\<close>, \<open>U+202F\<close>, \<open>U+205F\<close> and \<open>U+3000\<close>.
\<close>

definition whitespace :: "string list" where
  "whitespace =
     [[CHR 0x09], [CHR 0x0A], [CHR 0x0B], [CHR 0x0C], [CHR 0x0D],
      [CHR 0x1C], [CHR 0x1D], [CHR 0x1E], [CHR 0x1F], [CHR 0x20],
      [CHR 0xC2, CHR 0x85], [CHR 0xC2, CHR 0xA0],
      [CHR 0xE1, CHR 0x9A, CHR 0x80],
      [CHR 0xE2, CHR 0x80, CHR 0x80], [CHR 0xE2, CHR 0x80, CHR 0x81],
      [CHR 0xE2, CHR 0x80, CHR 0x82], [CHR 0xE2, CHR 0x80, CHR 0x83],
      [CHR 0xE2, CHR 0x80, CHR 0x84], [CHR 0xE2, CHR 0x80, CHR 0x85],
      [CHR 0xE2, CHR 0x80, CHR 0x86], [CHR 0xE2, CHR 0x80, CHR 0x87],
      [CHR 0xE2, CHR 0x80, CHR 0x88], [CHR 0xE2, CHR 0x80, CHR 0x89],
      [CHR 0xE2, CHR 0x80, CHR 0x8A], [CHR 0xE2, CHR 0x80, CHR 0xA8],
      [CHR 0xE2, CHR 0x80, CHR 0xA9], [CHR 0xE2, CHR 0x80, CHR 0xAF],
      [CHR 0xE2, CHR 0x81, CHR 0x9F], [CHR 0xE3, CHR 0x80, CHR 0x80]]"

text \<open>
  Removing the leading characters of a set \<open>W\<close> of encoded characters, one character
  at a time, until none of them starts the text.
\<close>

function lstrip_by :: "string list \<Rightarrow> string \<Rightarrow> string" where
  "lstrip_by W s =
     (case find (\<lambda>w. w \<noteq> [] \<and> prefix w s) W of
        None \<Rightarrow> s
      | Some w \<Rightarrow> lstrip_by W (drop (length w) s))"
  by pat_completeness auto
termination
proof (relation "measure (\<lambda>(W, s). length s)")
  show "wf (measure (\<lambda>(W, s). length s))" by simp
next
  fix W :: "string list" and s w :: string
  assume "find (\<lambda>w. w \<noteq> [] \<and> prefix w s) W = Some w"
  then have "w \<noteq> []" and "prefix w s"
    by (auto simp: find_Some_iff)
  then have "length w \<noteq> 0" and "length w \<le> length s"
    by (auto simp: prefix_length_le)
  then have "length s - length w < length s"
    by arith
  then show "((W, drop (length w) s), (W, s)) \<in> measure (\<lambda>(W, s). length s)"
    by simp
qed

declare lstrip_by.simps [simp del]

definition lstrip :: "string \<Rightarrow> string" where
  "lstrip s = lstrip_by whitespace s"

definition rstrip :: "string \<Rightarrow> string" where
  "rstrip s = rev (lstrip_by (map rev whitespace) (rev s))"

definition strip :: "string \<Rightarrow> string" where
  "strip s = rstrip (lstrip s)"

text \<open>A text made of white space only: a concatenation of white-space characters.\<close>

inductive all_whitespace :: "string \<Rightarrow> bool" where
  empty: "all_whitespace []"
| more: "w \<in> set whitespace \<Longrightarrow> all_whitespace s \<Longrightarrow> all_whitespace (w @ s)"

section \<open>app.py: the active tool\<close>

text \<open>
  \<open>st.session_state\<close> is a dictionary from keys to values. Only the key
  \<open>active_tool\<close> is read or written by the selector.
\<close>

type_synonym session_state = "string \<rightharpoonup> pyval"

definition active_tool_key :: string where
  "active_tool_key = ''active_tool''"

text \<open>
  \<^verbatim>\<open>if 'active_tool' not in st.session_state: st.session_state.active_tool = None\<close>
\<close>

definition init_active_tool :: "session_state \<Rightarrow> session_state" where
  "init_active_tool s =
     (case s active_tool_key of
        None \<Rightarrow> s(active_tool_key \<mapsto> PyNone)
      | Some v \<Rightarrow> s)"

text \<open>
  \<^verbatim>\<open>
  def set_active_tool(tool_name):
      if st.session_state.active_tool == tool_name:
          st.session_state.active_tool = None
      else:
          st.session_state.active_tool = tool_name
  \<close>
  Reading the attribute of a session state without the key raises \<open>AttributeError\<close>.
\<close>

definition set_active_tool :: "session_state \<Rightarrow> pyval \<Rightarrow> exn + session_state" where
  "set_active_tool s tool_name =
     (case s active_tool_key of
        None \<Rightarrow> Inl (Exn AttributeError active_tool_key)
      | Some cur \<Rightarrow>
          if cur = tool_name then Inr (s(active_tool_key \<mapsto> PyNone))
          else Inr (s(active_tool_key \<mapsto> tool_name)))"

subsection \<open>The selector of the specification\<close>

text \<open>
  The two-state machine as the specification words it: \<open>Idle\<close> and \<open>Showing x\<close>, with
  the transitions \<open>Idle --toggle(x)--> Showing(x)\<close>, \<open>Showing(x) --toggle(x)--> Idle\<close> and
  \<open>Showing(x) --toggle(y), y \<noteq> x--> Showing(y)\<close>.
\<close>

datatype selector = Idle | Showing string

fun spec_toggle :: "selector \<Rightarrow> string \<Rightarrow> selector" where
  "spec_toggle Idle x = Showing x"
| "spec_toggle (Showing x) y = (if y = x then Idle else Showing y)"

text \<open>The state of the machine a session state stands for, where it stands for one.\<close>

definition selector_of :: "session_state \<Rightarrow> selector option" where
  "selector_of s =
     (case s active_tool_key of
        Some PyNone \<Rightarrow> Some Idle
      | Some (PyStr x) \<Rightarrow> Some (Showing x)
      | _ \<Rightarrow> None)"

section \<open>tools/file_conversion.py: the conversion registry\<close>

text \<open>
  One row of the table: \<^verbatim>\<open>{"input": ..., "output": ..., "available": ...}\<close>, with
  the fields \<open>input_kind\<close> and \<open>output_kind\<close> for the keys \<open>"input"\<close> and \<open>"output"\<close>.
  The table is a dictionary of dictionaries; the association lists below keep the order
  of the keys, which are distinct as the keys of a dictionary are.
\<close>

record conversion_info =
  input_kind :: string
  output_kind :: string
  available :: bool

type_synonym conversions = "(string \<times> conversion_info) list"

type_synonym registry = "(string \<times> conversions) list"

record FileConverter =
  supported_conversions :: registry

text \<open>
  An uploaded file is a named \<open>io.BytesIO\<close>: the bytes and the position the next read
  starts at. \<open>read()\<close> returns the bytes from the position on and leaves the position
  at the end. The object is mutable: a routine that reads it, or passes it to a library
  that does, returns it as it then stands.
\<close>

record bytes_io =
  contents :: string
  position :: nat

record uploaded_file =
  name :: string
  buffer :: bytes_io

definition read :: "bytes_io \<Rightarrow> string \<times> bytes_io" where
  "read s =
     (drop (position s) (contents s), s\<lparr>position := max (position s) (length (contents s))\<rparr>)"

text \<open>Running a step on a stream after another one, unless that one raised.\<close>

definition and_then_io ::
  "(exn + 'a) \<times> bytes_io \<Rightarrow> ('a \<Rightarrow> bytes_io \<Rightarrow> (exn + 'b) \<times> bytes_io)
   \<Rightarrow> (exn + 'b) \<times> bytes_io" where
  "and_then_io r k = (case r of (Inl e, s) \<Rightarrow> (Inl e, s) | (Inr v, s) \<Rightarrow> k v s)"

text \<open>
  The libraries the converter calls are not part of the repository. They are
  parameters of the model: the two module flags the \<open>import\<close> attempts at the top of the
  file set, what \<open>import yaml\<close> and \<open>import markdown\<close> do inside the routines (\<open>None\<close>:
  the module loads), and one function for each library call, returning its result or
  the exception it raises. A call that is given a stream (the upload, or a
  \<open>BytesIO\<close> the code wraps around bytes) also returns the stream as the call leaves
  it; a PIL image keeps the stream it was opened from, so the calls on the image take
  and return that stream too. \<open>'df\<close> is a pandas data frame, \<open>'img\<close> a PIL image and \<open>'obj\<close>
  the data \<open>json\<close> and \<open>yaml\<close> parse. \<open>docx2pdf_convert\<close> stands for
  \<open>convert(tmp_docx_path, tmp_pdf_path)\<close> read through the two temporary files the
  routine creates and removes: the bytes of the PDF for the bytes of the DOCX.
  \<open>str_upper\<close> and \<open>str_lower\<close> are Python's \<open>str.upper\<close> and \<open>str.lower\<close>.
\<close>

record ('df, 'img, 'obj) libs =
  DOCX_AVAILABLE :: bool
  PDF_AVAILABLE :: bool
  import_yaml :: "exn option"
  import_markdown :: "exn option"
  docx2pdf_convert :: "string \<Rightarrow> exn + string"
  pd_read_csv :: "bytes_io \<Rightarrow> (exn + 'df) \<times> bytes_io"
  pd_read_excel :: "bytes_io \<Rightarrow> (exn + 'df) \<times> bytes_io"
  pd_DataFrame :: "'obj \<Rightarrow> exn + 'df"
  df_to_json :: "'df \<Rightarrow> exn + string"
  df_to_csv :: "'df \<Rightarrow> exn + string"
  df_to_excel :: "'df \<Rightarrow> exn + string"
  json_load :: "bytes_io \<Rightarrow> (exn + 'obj) \<times> bytes_io"
  json_loads :: "string \<Rightarrow> exn + 'obj"
  json_dumps :: "'obj \<Rightarrow> exn + string"
  yaml_dump :: "'obj \<Rightarrow> exn + string"
  yaml_safe_load :: "string \<Rightarrow> exn + 'obj"
  markdown_markdown :: "string \<Rightarrow> exn + string"
  Image_open :: "bytes_io \<Rightarrow> (exn + 'img) \<times> bytes_io"
  image_mode :: "'img \<Rightarrow> string"
  image_convert :: "'img \<Rightarrow> string \<Rightarrow> bytes_io \<Rightarrow> (exn + 'img) \<times> bytes_io"
  image_save :: "'img \<Rightarrow> string \<Rightarrow> bytes_io \<Rightarrow> (exn + string) \<times> bytes_io"
  b64encode :: "string \<Rightarrow> string"
  b64decode :: "string \<Rightarrow> exn + string"
  str_upper :: "string \<Rightarrow> string"
  str_lower :: "string \<Rightarrow> string"

text \<open>\<open>FileConverter.__init__\<close>: the table, with the two flags read when it is built.\<close>

definition FileConverter_init :: "('df, 'img, 'obj) libs \<Rightarrow> FileConverter" where
  "FileConverter_init L = \<lparr>supported_conversions =
     [(''Document Conversions'',
        [(''DOCX to PDF'', \<lparr>input_kind = ''docx'', output_kind = ''pdf'', available = DOCX_AVAILABLE L\<rparr>),
         (''TXT to PDF'', \<lparr>input_kind = ''txt'', output_kind = ''pdf'', available = PDF_AVAILABLE L\<rparr>),
         (''MD to HTML'', \<lparr>input_kind = ''md'', output_kind = ''html'', available = True\<rparr>)]),
      (''Data Conversions'',
        [(''CSV to JSON'', \<lparr>input_kind = ''csv'', output_kind = ''json'', available = True\<rparr>),
         (''JSON to CSV'', \<lparr>input_kind = ''json'', output_kind = ''csv'', available = True\<rparr>),
         (''Excel to CSV'', \<lparr>input_kind = ''xlsx'', output_kind = ''csv'', available = True\<rparr>),
         (''CSV to Excel'', \<lparr>input_kind = ''csv'', output_kind = ''xlsx'', available = True\<rparr>)]),
      (''Image Conversions'',
        [(''PNG to JPG'', \<lparr>input_kind = ''png'', output_kind = ''jpg'', available = True\<rparr>),
         (''JPG to PNG'', \<lparr>input_kind = ''jpg'', output_kind = ''png'', available = True\<rparr>),
         (''Image to Base64'', \<lparr>input_kind = ''image'', output_kind = ''base64'', available = True\<rparr>),
         (''Base64 to Image'', \<lparr>input_kind = ''base64'', output_kind = ''image'', available = True\<rparr>)]),
      (''Text Conversions'',
        [(''JSON to YAML'', \<lparr>input_kind = ''json'', output_kind = ''yaml'', available = True\<rparr>),
         (''YAML to JSON'', \<lparr>input_kind = ''yaml'', output_kind = ''json'', available = True\<rparr>),
         (''CSV to HTML Table'', \<lparr>input_kind = ''csv'', output_kind = ''html'', available = True\<rparr>)])]\<rparr>"

text \<open>
  The state a call of the converter runs in: the converter object and the page. The
  routines take it and return it, as the methods take \<open>self\<close> and write to \<open>st\<close>.
\<close>

record world =
  converter :: FileConverter
  page :: "ui_event list"

definition emit :: "ui_event \<Rightarrow> world \<Rightarrow> world" where
  "emit ev w = w\<lparr>page := page w @ [ev]\<rparr>"

text \<open>
  What the user does during one run of the script: the option picked in each of the
  two select boxes (by its index), the text in the text area, the file in the uploader
  (as the widget hands it over) and whether the button is pressed.
\<close>

record user =
  category_index :: nat
  conversion_index :: nat
  text_typed :: string
  file_uploaded :: "uploaded_file option"
  button_clicked :: bool

text \<open>
  The widgets: each puts its event on the page and returns what the user entered. A
  select box returns the option picked, and \<open>None\<close> when there is no option at the
  index, as it does for an empty list of options.
\<close>

definition selectbox :: "string \<Rightarrow> string list \<Rightarrow> nat \<Rightarrow> world \<Rightarrow> string option \<times> world" where
  "selectbox label options i w =
     ((if i < length options then Some (options ! i) else None), emit (StSelectbox label options) w)"

definition text_area :: "string \<Rightarrow> string \<Rightarrow> user \<Rightarrow> world \<Rightarrow> string \<times> world" where
  "text_area label placeholder u w = (text_typed u, emit (StTextArea label placeholder) w)"

definition button :: "string \<Rightarrow> user \<Rightarrow> world \<Rightarrow> bool \<times> world" where
  "button label u w = (button_clicked u, emit (StButton label) w)"

definition file_uploader ::
  "string \<Rightarrow> string list \<Rightarrow> user \<Rightarrow> world \<Rightarrow> uploaded_file option \<times> world" where
  "file_uploader label types u w = (file_uploaded u, emit (StFileUploader label types) w)"

subsection \<open>The conversion routines\<close>

text \<open>
  \<^verbatim>\<open>
  def docx_to_pdf(self, uploaded_file):
      if not DOCX_AVAILABLE:
          st.error("DOCX conversion dependencies not available")
          return None
      with tempfile.NamedTemporaryFile(delete=False, suffix='.docx') as tmp_docx:
          tmp_docx.write(uploaded_file.read())
      ... convert(tmp_docx_path, tmp_pdf_path) ... return pdf_data
  \<close>
  An exception of the conversion is raised again after the temporary files are
  removed.
\<close>

definition docx_to_pdf ::
  "('df, 'img, 'obj) libs \<Rightarrow> uploaded_file \<Rightarrow> world
   \<Rightarrow> ((exn + pyval) \<times> uploaded_file) \<times> world" where
  "docx_to_pdf L uploaded_file w =
     (if \<not> DOCX_AVAILABLE L
      then ((Inr PyNone, uploaded_file),
            emit (StError ''DOCX conversion dependencies not available'') w)
      else (case read (buffer uploaded_file) of
              (docx_data, s) \<Rightarrow>
                ((and_then (docx2pdf_convert L docx_data) (\<lambda>pdf_data. Inr (PyBytes pdf_data)),
                  uploaded_file\<lparr>buffer := s\<rparr>), w)))"

text \<open>\<^verbatim>\<open>df = pd.read_csv(uploaded_file); return df.to_json(orient='records', indent=2)\<close>\<close>

definition csv_to_json ::
  "('df, 'img, 'obj) libs \<Rightarrow> uploaded_file \<Rightarrow> (exn + pyval) \<times> uploaded_file" where
  "csv_to_json L uploaded_file =
     (case pd_read_csv L (buffer uploaded_file) of
        (r, s) \<Rightarrow>
          (and_then r (\<lambda>df.
           and_then (df_to_json L df) (\<lambda>text. Inr (PyStr text))),
           uploaded_file\<lparr>buffer := s\<rparr>))"

text \<open>
  \<^verbatim>\<open>json_data = json.load(uploaded_file); df = pd.DataFrame(json_data); return df.to_csv(index=False)\<close>
\<close>

definition json_to_csv ::
  "('df, 'img, 'obj) libs \<Rightarrow> uploaded_file \<Rightarrow> (exn + pyval) \<times> uploaded_file" where
  "json_to_csv L uploaded_file =
     (case json_load L (buffer uploaded_file) of
        (r, s) \<Rightarrow>
          (and_then r (\<lambda>json_data.
           and_then (pd_DataFrame L json_data) (\<lambda>df.
           and_then (df_to_csv L df) (\<lambda>text. Inr (PyStr text)))),
           uploaded_file\<lparr>buffer := s\<rparr>))"

text \<open>\<^verbatim>\<open>df = pd.read_excel(uploaded_file); return df.to_csv(index=False)\<close>\<close>

definition excel_to_csv ::
  "('df, 'img, 'obj) libs \<Rightarrow> uploaded_file \<Rightarrow> (exn + pyval) \<times> uploaded_file" where
  "excel_to_csv L uploaded_file =
     (case pd_read_excel L (buffer uploaded_file) of
        (r, s) \<Rightarrow>
          (and_then r (\<lambda>df.
           and_then (df_to_csv L df) (\<lambda>text. Inr (PyStr text))),
           uploaded_file\<lparr>buffer := s\<rparr>))"

text \<open>
  \<^verbatim>\<open>df = pd.read_csv(uploaded_file); output = io.BytesIO(); df.to_excel(output, index=False); return output.getvalue()\<close>
\<close>

definition csv_to_excel ::
  "('df, 'img, 'obj) libs \<Rightarrow> uploaded_file \<Rightarrow> (exn + pyval) \<times> uploaded_file" where
  "csv_to_excel L uploaded_file =
     (case pd_read_csv L (buffer uploaded_file) of
        (r, s) \<Rightarrow>
          (and_then r (\<lambda>df.
           and_then (df_to_excel L df) (\<lambda>bytes. Inr (PyBytes bytes))),
           uploaded_file\<lparr>buffer := s\<rparr>))"

text \<open>
  \<^verbatim>\<open>
  image = Image.open(uploaded_file)
  if output_format.lower() == 'jpg' and image.mode != 'RGB':
      image = image.convert('RGB')
  output = io.BytesIO()
  image.save(output, format=output_format.upper())
  return output.getvalue()
  \<close>
\<close>

definition convert_image_format ::
  "('df, 'img, 'obj) libs \<Rightarrow> uploaded_file \<Rightarrow> string \<Rightarrow> (exn + pyval) \<times> uploaded_file" where
  "convert_image_format L uploaded_file output_format =
     (case and_then_io (Image_open L (buffer uploaded_file)) (\<lambda>image s.
           and_then_io (if str_lower L output_format = ''jpg'' \<and> image_mode L image \<noteq> ''RGB''
                        then image_convert L image ''RGB'' s else (Inr image, s)) (\<lambda>image' s'.
           and_then_io (image_save L image' (str_upper L output_format) s') (\<lambda>bytes s''.
             (Inr (PyBytes bytes), s'')))) of
        (r, s) \<Rightarrow> (r, uploaded_file\<lparr>buffer := s\<rparr>))"

text \<open>
  \<^verbatim>\<open>
  image_data = uploaded_file.read()
  base64_string = base64.b64encode(image_data).decode('utf-8')
  file_ext = uploaded_file.name.split('.')[-1].lower()
  return f"data:image/{file_ext};base64,{base64_string}"
  \<close>
\<close>

definition image_to_base64 ::
  "('df, 'img, 'obj) libs \<Rightarrow> uploaded_file \<Rightarrow> (exn + pyval) \<times> uploaded_file" where
  "image_to_base64 L uploaded_file =
     (case read (buffer uploaded_file) of
        (image_data, s) \<Rightarrow>
          (let base64_string = b64encode L image_data;
               file_ext = str_lower L (last (split (name uploaded_file) ''.''))
           in (Inr (PyStr (''data:image/'' @ file_ext @ '';base64,'' @ base64_string)),
               uploaded_file\<lparr>buffer := s\<rparr>)))"

text \<open>
  \<^verbatim>\<open>
  try:
      import yaml
      json_data = json.loads(json_text)
      return yaml.dump(json_data, default_flow_style=False)
  except ImportError:
      st.error("PyYAML not installed. Install with: pip install pyyaml")
      return None
  \<close>
\<close>

definition json_to_yaml ::
  "('df, 'img, 'obj) libs \<Rightarrow> string \<Rightarrow> world \<Rightarrow> (exn + pyval) \<times> world" where
  "json_to_yaml L json_text w =
     (case (case import_yaml L of
              Some e \<Rightarrow> Inl e
            | None \<Rightarrow>
                and_then (json_loads L json_text) (\<lambda>json_data.
                and_then (yaml_dump L json_data) (\<lambda>text. Inr (PyStr text)))) of
        Inr v \<Rightarrow> (Inr v, w)
      | Inl e \<Rightarrow>
          if exn_is ImportError e
          then (Inr PyNone,
                emit (StError ''PyYAML not installed. Install with: pip install pyyaml'') w)
          else (Inl e, w))"

text \<open>
  \<^verbatim>\<open>
  try:
      import yaml
      yaml_data = yaml.safe_load(yaml_text)
      return json.dumps(yaml_data, indent=2)
  except ImportError:
      st.error("PyYAML not installed. Install with: pip install pyyaml")
      return None
  \<close>
\<close>

definition yaml_to_json ::
  "('df, 'img, 'obj) libs \<Rightarrow> string \<Rightarrow> world \<Rightarrow> (exn + pyval) \<times> world" where
  "yaml_to_json L yaml_text w =
     (case (case import_yaml L of
              Some e \<Rightarrow> Inl e
            | None \<Rightarrow>
                and_then (yaml_safe_load L yaml_text) (\<lambda>yaml_data.
                and_then (json_dumps L yaml_data) (\<lambda>text. Inr (PyStr text)))) of
        Inr v \<Rightarrow> (Inr v, w)
      | Inl e \<Rightarrow>
          if exn_is ImportError e
          then (Inr PyNone,
                emit (StError ''PyYAML not installed. Install with: pip install pyyaml'') w)
          else (Inl e, w))"

text \<open>
  \<^verbatim>\<open>
  try:
      import markdown
      html = markdown.markdown(md_text)
      return f"<!DOCTYPE html>...<body>{html}</body></html>"
  except ImportError:
      html = md_text.replace('\n', '<br>')
      html = html.replace('**', '<strong>').replace('**', '</strong>')
      html = html.replace('*', '<em>').replace('*', '</em>')
      return f"<!DOCTYPE html>...<body>{html}</body></html>"
  \<close>
\<close>

definition html_document :: "string \<Rightarrow> string" where
  "html_document html =
     ''<!DOCTYPE html><html><head><title>Converted Document</title></head><body>''
     @ html @ ''</body></html>''"

definition md_to_html :: "('df, 'img, 'obj) libs \<Rightarrow> string \<Rightarrow> exn + pyval" where
  "md_to_html L md_text =
     (case (case import_markdown L of
              Some e \<Rightarrow> Inl e
            | None \<Rightarrow>
                and_then (markdown_markdown L md_text) (\<lambda>html.
                Inr (PyStr (html_document html)))) of
        Inr v \<Rightarrow> Inr v
      | Inl e \<Rightarrow>
          if exn_is ImportError e
          then (let html = replace md_text newline ''<br>'';
                    html = replace (replace html ''**'' ''<strong>'') ''**'' ''</strong>'';
                    html = replace (replace html ''*'' ''<em>'') ''*'' ''</em>''
                in Inr (PyStr (html_document html)))
          else Inl e)"

text \<open>
  \<^verbatim>\<open>
  lines = csv_text.strip().split('\n')
  html = "<table border='1' style='border-collapse: collapse; width: 100%;'>"
  for i, line in enumerate(lines):
      cells = line.split(',')
      if i == 0:
          html += "<tr style='background-color: #f2f2f2;'>"
          for cell in cells:
              html += f"<th style='padding: 8px;'>{cell.strip()}</th>"
          html += "</tr>"
      else:
          html += "<tr>"
          for cell in cells:
              html += f"<td style='padding: 8px;'>{cell.strip()}</td>"
          html += "</tr>"
  html += "</table>"
  return html
  \<close>
\<close>

definition csv_row_html :: "nat \<times> string \<Rightarrow> string" where
  "csv_row_html il =
     (let i = fst il; line = snd il; cells = split line '','' in
      if i = 0
      then ''<tr style='' @ apostrophe @ ''background-color: #f2f2f2;'' @ apostrophe @ ''>''
           @ concat (map (\<lambda>cell. ''<th style='' @ apostrophe @ ''padding: 8px;'' @ apostrophe
                                  @ ''>'' @ strip cell @ ''</th>'') cells)
           @ ''</tr>''
      else ''<tr>''
           @ concat (map (\<lambda>cell. ''<td style='' @ apostrophe @ ''padding: 8px;'' @ apostrophe
                                  @ ''>'' @ strip cell @ ''</td>'') cells)
           @ ''</tr>'')"

definition csv_text_to_html :: "string \<Rightarrow> exn + pyval" where
  "csv_text_to_html csv_text =
     (let lines = split (strip csv_text) newline;
          html = ''<table border='' @ apostrophe @ ''1'' @ apostrophe @ '' style='' @ apostrophe
                 @ ''border-collapse: collapse; width: 100%;'' @ apostrophe @ ''>'';
          html = html @ concat (map csv_row_html (enumerate 0 lines));
          html = html @ ''</table>''
      in Inr (PyStr html))"

subsection \<open>The dispatch\<close>

text \<open>
  Both dispatch functions wrap their body in \<open>try: ... except Exception as e:\<close>, show
  the text of the exception after a fixed label and return \<open>None\<close>. \<open>convert_file\<close>
  returns, with its result, the upload as the routine left it:
\<close>

definition caught :: "string \<Rightarrow> (exn + pyval) \<times> world \<Rightarrow> pyval \<times> world" where
  "caught label r =
     (case r of
        (Inr v, w') \<Rightarrow> (v, w')
      | (Inl e, w') \<Rightarrow> (PyNone, emit (StError (label @ exn_text e)) w'))"

text \<open>
  \<^verbatim>\<open>
  def convert_file(self, uploaded_file, conversion_type, input_format, output_format):
      try:
          if conversion_type == "DOCX to PDF":   return self.docx_to_pdf(uploaded_file)
          elif conversion_type == "CSV to JSON":  return self.csv_to_json(uploaded_file)
          elif conversion_type == "JSON to CSV":  return self.json_to_csv(uploaded_file)
          elif conversion_type == "Excel to CSV": return self.excel_to_csv(uploaded_file)
          elif conversion_type == "CSV to Excel": return self.csv_to_excel(uploaded_file)
          elif conversion_type in ["PNG to JPG", "JPG to PNG"]:
              return self.convert_image_format(uploaded_file, output_format)
          elif conversion_type == "Image to Base64": return self.image_to_base64(uploaded_file)
          else:
              st.error(f"Conversion type '{conversion_type}' not implemented")
              return None
      except Exception as e:
          st.error(f"File conversion error: {str(e)}")
          return None
  \<close>
\<close>

definition file_not_implemented :: "string \<Rightarrow> ui_event" where
  "file_not_implemented conversion_type =
     StError (''Conversion type '' @ apostrophe @ conversion_type @ apostrophe
              @ '' not implemented'')"

definition convert_file ::
  "('df, 'img, 'obj) libs \<Rightarrow> uploaded_file \<Rightarrow> string \<Rightarrow> string \<Rightarrow> string \<Rightarrow> world
   \<Rightarrow> pyval \<times> uploaded_file \<times> world" where
  "convert_file L uploaded_file conversion_type input_format output_format w =
     (case (if conversion_type = ''DOCX to PDF'' then docx_to_pdf L uploaded_file w
            else if conversion_type = ''CSV to JSON'' then (csv_to_json L uploaded_file, w)
            else if conversion_type = ''JSON to CSV'' then (json_to_csv L uploaded_file, w)
            else if conversion_type = ''Excel to CSV'' then (excel_to_csv L uploaded_file, w)
            else if conversion_type = ''CSV to Excel'' then (csv_to_excel L uploaded_file, w)
            else if conversion_type \<in> set [''PNG to JPG'', ''JPG to PNG'']
              then (convert_image_format L uploaded_file output_format, w)
            else if conversion_type = ''Image to Base64'' then (image_to_base64 L uploaded_file, w)
            else ((Inr PyNone, uploaded_file), emit (file_not_implemented conversion_type) w)) of
        ((r, uploaded_file'), w') \<Rightarrow>
          (case caught ''File conversion error: '' (r, w') of
             (v, w'') \<Rightarrow> (v, uploaded_file', w'')))"

text \<open>
  \<^verbatim>\<open>
  def convert_text(self, text_input, conversion_type, input_format, output_format):
      try:
          if conversion_type == "JSON to YAML":   return self.json_to_yaml(text_input)
          elif conversion_type == "YAML to JSON": return self.yaml_to_json(text_input)
          elif conversion_type == "MD to HTML":   return self.md_to_html(text_input)
          elif conversion_type == "CSV to HTML Table": return self.csv_text_to_html(text_input)
          else:
              st.error(f"Text conversion type '{conversion_type}' not implemented")
              return None
      except Exception as e:
          st.error(f"Text conversion error: {str(e)}")
          return None
  \<close>
\<close>

definition text_not_implemented :: "string \<Rightarrow> ui_event" where
  "text_not_implemented conversion_type =
     StError (''Text conversion type '' @ apostrophe @ conversion_type @ apostrophe
              @ '' not implemented'')"

definition convert_text ::
  "('df, 'img, 'obj) libs \<Rightarrow> string \<Rightarrow> string \<Rightarrow> string \<Rightarrow> string \<Rightarrow> world
   \<Rightarrow> pyval \<times> world" where
  "convert_text L text_input conversion_type input_format output_format w =
     caught ''Text conversion error: ''
       (if conversion_type = ''JSON to YAML'' then json_to_yaml L text_input w
        else if conversion_type = ''YAML to JSON'' then yaml_to_json L text_input w
        else if conversion_type = ''MD to HTML'' then (md_to_html L text_input, w)
        else if conversion_type = ''CSV to HTML Table'' then (csv_text_to_html text_input, w)
        else (Inr PyNone, emit (text_not_implemented conversion_type) w))"

subsection \<open>The forms\<close>

text \<open>
  \<open>provide_download\<close>: the MIME type by the kind of the data (\<open>isinstance(data, str)\<close>)
  and the output format, the file name \<open>original_filename.split('.')[0]\<close> with the new
  suffix, the download button and the closing message.
\<close>

definition provide_download ::
  "('df, 'img, 'obj) libs \<Rightarrow> pyval \<Rightarrow> string \<Rightarrow> string \<Rightarrow> world \<Rightarrow> world" where
  "provide_download L data output_format original_filename w =
     (let mime_type =
            (case data of
               PyStr text \<Rightarrow>
                 if output_format = ''json'' then ''application/json''
                 else if output_format = ''html'' then ''text/html''
                 else if output_format = ''csv'' then ''text/csv''
                 else ''text/plain''
             | _ \<Rightarrow>
                 if output_format = ''pdf'' then ''application/pdf''
                 else if output_format = ''xlsx''
                   then ''application/vnd.openxmlformats-officedocument.spreadsheetml.sheet''
                 else if output_format \<in> set [''png'', ''jpg'', ''jpeg'']
                   then ''image/'' @ output_format
                 else ''application/octet-stream'');
          filename = hd (split original_filename ''.'') @ ''.'' @ output_format;
          w1 = emit (StDownloadButton (emoji_down @ '' Download '' @ str_upper L output_format)
                       data filename mime_type) w
      in emit (StSuccess (emoji_check @ '' Conversion completed successfully!'')) w1)"

text \<open>
  \<open>handle_file_input\<close>: the uploader, and, once a file is there and the button is
  pressed, \<open>convert_file\<close> and the download or the message ``Conversion failed!''. The
  \<open>except\<close> clause around the conversion has nothing to catch here: \<open>convert_file\<close>
  returns \<open>None\<close> for every exception. The form returns nothing; the upload stays as
  the conversion left it, with the widget that supplied it.
\<close>

definition file_types :: "(string \<times> string list) list" where
  "file_types =
     [(''docx'', [''docx'']),
      (''csv'', [''csv'']),
      (''xlsx'', [''xlsx'', ''xls'']),
      (''json'', [''json'']),
      (''png'', [''png'']),
      (''jpg'', [''jpg'', ''jpeg'']),
      (''image'', [''png'', ''jpg'', ''jpeg'', ''bmp'', ''gif'', ''tiff''])]"

definition handle_file_input ::
  "('df, 'img, 'obj) libs \<Rightarrow> user \<Rightarrow> string \<Rightarrow> string \<Rightarrow> string \<Rightarrow> world \<Rightarrow> world" where
  "handle_file_input L u conversion_type input_format output_format w =
     (let types = (case map_of file_types input_format of
                     Some t \<Rightarrow> t
                   | None \<Rightarrow> [input_format]);
          (uploaded, w1) = file_uploader (''Upload '' @ str_upper L input_format @ '' file'') types u w
      in case uploaded of
           None \<Rightarrow> w1
         | Some f \<Rightarrow>
             (let w2 = emit (StSuccess (emoji_check @ '' File uploaded: '' @ name f)) w1;
                  (pressed, w3) = button (emoji_convert @ '' Convert to '' @ str_upper L output_format) u w2
              in if \<not> pressed then w3
                 else (case convert_file L f conversion_type input_format output_format w3 of
                         (converted_data, f', w4) \<Rightarrow>
                           if truthy converted_data
                           then provide_download L converted_data output_format (name f') w4
                           else emit (StError ''Conversion failed!'') w4)))"

text \<open>
  \<open>handle_text_input\<close>: the text area, and, once a text is there and the button is
  pressed (the button is drawn only when the text is not empty), \<open>convert_text\<close> and
  the result with its download button, or the message ``Conversion failed!''.
\<close>

definition text_placeholder :: "string \<Rightarrow> string" where
  "text_placeholder input_format =
     (if input_format = ''json''
        then ''{\"name\": \"John\", \"age\": 30, \"city\": \"New York\"}''
      else if input_format = ''yaml''
        then ''name: John'' @ newline @ ''age: 30'' @ newline @ ''city: New York''
      else if input_format = ''md''
        then ''# My Document'' @ newline @ newline @ ''This is **bold** text.''
      else ''Enter your text here...'')"

definition handle_text_input ::
  "('df, 'img, 'obj) libs \<Rightarrow> user \<Rightarrow> string \<Rightarrow> string \<Rightarrow> string \<Rightarrow> world \<Rightarrow> world" where
  "handle_text_input L u conversion_type input_format output_format w =
     (let w1 = emit (StMarkdown (''#### Input '' @ str_upper L input_format @ '' content:'')) w;
          (text_input, w2) = text_area (''Enter '' @ str_upper L input_format @ '' content'')
                               (text_placeholder input_format) u w1
      in if text_input = [] then w2
         else (let (pressed, w3) =
                     button (emoji_convert @ '' Convert to '' @ str_upper L output_format) u w2
               in if \<not> pressed then w3
                  else (let (converted_data, w4) =
                              convert_text L text_input conversion_type input_format output_format w3
                        in if truthy converted_data
                           then (let w5 = emit (StMarkdown (''#### Converted ''
                                                  @ str_upper L output_format @ '' content:'')) w4;
                                     w6 = (if output_format = ''html''
                                           then emit (StHtml converted_data) w5
                                           else emit (StCode converted_data output_format) w5)
                                 in emit (StDownloadButton
                                            (emoji_down @ '' Download '' @ str_upper L output_format)
                                            converted_data
                                            (''converted.'' @ output_format)
                                            (''text/'' @ output_format)) w6)
                           else emit (StError ''Conversion failed!'') w4)))"

text \<open>
  \<open>handle_base64_input\<close> converts on its own, without the dispatch: it drops a data
  URL prefix, decodes, opens the image from a fresh \<open>io.BytesIO(image_data)\<close>, shows it
  and offers it as PNG; any exception becomes the message ``Conversion error: ...''
  after what was already drawn.
\<close>

definition base64_placeholder :: string where
  "base64_placeholder =
     ''data:image/png;base64,iVBORw0KGgoAAAANSUhEUgAAAAEAAAABCAYAAAAfFcSJAAAADUlEQVR42mP8/5+hHgAHggJ/PchI7wAAAABJRU5ErkJggg==''"

definition handle_base64_input ::
  "('df, 'img, 'obj) libs \<Rightarrow> user \<Rightarrow> string \<Rightarrow> world \<Rightarrow> world" where
  "handle_base64_input L u conversion_type w =
     (let w1 = emit (StMarkdown ''#### Enter Base64 string:'') w;
          (base64_input, w2) = text_area ''Base64 string'' base64_placeholder u w1
      in if base64_input = [] then w2
         else (let (pressed, w3) = button (emoji_convert @ '' Convert to Image'') u w2
               in if \<not> pressed then w3
                  else (let base64_input' =
                              (if contains ''base64,'' base64_input
                               then split base64_input ''base64,'' ! 1
                               else base64_input)
                        in case b64decode L base64_input' of
                             Inl e \<Rightarrow> emit (StError (''Conversion error: '' @ exn_text e)) w3
                           | Inr image_data \<Rightarrow>
                              (case Image_open L \<lparr>contents = image_data, position = 0\<rparr> of
                                 (Inl e, s) \<Rightarrow>
                                   emit (StError (''Conversion error: '' @ exn_text e)) w3
                               | (Inr img, s) \<Rightarrow>
                                   (let w4 = emit (StImage ''Converted Image'') w3
                                    in case fst (image_save L img ''PNG'' s) of
                                         Inl e \<Rightarrow>
                                           emit (StError (''Conversion error: '' @ exn_text e)) w4
                                       | Inr png \<Rightarrow>
                                           emit (StDownloadButton
                                                   (emoji_down @ '' Download Image'')
                                                   (PyBytes png) ''converted_image.png''
                                                   ''image/png'') w4)))))"

subsection \<open>The page of the converter\<close>

text \<open>
  \<^verbatim>\<open>
  def render_file_converter(self):
      st.subheader("... File Converter")
      if not DOCX_AVAILABLE: st.warning(...)
      if not PDF_AVAILABLE:  st.warning(...)
      conversion_categories = list(self.supported_conversions.keys())
      selected_category = st.selectbox("Select Conversion Category", conversion_categories)
      conversions = self.supported_conversions[selected_category]
      available_conversions = [k for k, v in conversions.items() if v["available"]]
      if not available_conversions:
          st.error("No conversions available in this category. Please install required dependencies.")
          return
      selected_conversion = st.selectbox("Select Conversion Type", available_conversions)
      conversion_info = conversions[selected_conversion]
      input_format = conversion_info["input"]
      output_format = conversion_info["output"]
      st.info(f"Converting from **{input_format.upper()}** to **{output_format.upper()}**")
      if input_format == "base64":
          self.handle_base64_input(selected_conversion)
      elif input_format in ["txt", "md", "json", "yaml"]:
          self.handle_text_input(selected_conversion, input_format, output_format)
      else:
          self.handle_file_input(selected_conversion, input_format, output_format)
  \<close>
  A subscript with a key the dictionary does not have raises \<open>KeyError\<close>.
\<close>

definition available_conversions :: "conversions \<Rightarrow> string list" where
  "available_conversions conversions = map fst (filter (\<lambda>kv. available (snd kv)) conversions)"

definition no_conversions_message :: string where
  "no_conversions_message =
     ''No conversions available in this category. Please install required dependencies.''"

definition category_label :: string where
  "category_label = ''Select Conversion Category''"

definition conversion_label :: string where
  "conversion_label = ''Select Conversion Type''"

definition render_file_converter ::
  "('df, 'img, 'obj) libs \<Rightarrow> user \<Rightarrow> world \<Rightarrow> (exn + unit) \<times> world" where
  "render_file_converter L u w =
     (let w1 = emit (StSubheader (emoji_convert @ '' File Converter'')) w;
          w2 = (if \<not> DOCX_AVAILABLE L
                then emit (StWarning (emoji_package
                       @ '' Install `python-docx` and `docx2pdf` for DOCX to PDF conversion'')) w1
                else w1);
          w3 = (if \<not> PDF_AVAILABLE L
                then emit (StWarning (emoji_package
                       @ '' Install `PyMuPDF` for advanced PDF operations'')) w2
                else w2);
          conversion_categories = map fst (supported_conversions (converter w3));
          (selected_category, w4) =
             selectbox category_label conversion_categories (category_index u) w3
      in case selected_category of
           None \<Rightarrow> (Inl (Exn KeyError ''None''), w4)
         | Some category \<Rightarrow>
            (case map_of (supported_conversions (converter w4)) category of
               None \<Rightarrow> (Inl (Exn KeyError category), w4)
             | Some conversions \<Rightarrow>
                 if available_conversions conversions = []
                 then (Inr (), emit (StError no_conversions_message) w4)
                 else
                  (let (selected_conversion, w5) =
                         selectbox conversion_label (available_conversions conversions)
                           (conversion_index u) w4
                   in case selected_conversion of
                        None \<Rightarrow> (Inl (Exn KeyError ''None''), w5)
                      | Some conversion \<Rightarrow>
                         (case map_of conversions conversion of
                            None \<Rightarrow> (Inl (Exn KeyError conversion), w5)
                          | Some conversion_info \<Rightarrow>
                             (let input_format = input_kind conversion_info;
                                  output_format = output_kind conversion_info;
                                  w6 = emit (StInfo (''Converting from **'' @ str_upper L input_format
                                         @ ''** to **'' @ str_upper L output_format @ ''**'')) w5
                              in if input_format = ''base64''
                                 then (Inr (), handle_base64_input L u conversion w6)
                                 else if input_format \<in> set [''txt'', ''md'', ''json'', ''yaml'']
                                 then (Inr (), handle_text_input L u conversion
                                                 input_format output_format w6)
                                 else (Inr (), handle_file_input L u conversion
                                                 input_format output_format w6))))))"

subsection \<open>An environment to run the converter in\<close>

text \<open>
  \<open>base64.b64encode(b).decode('utf-8')\<close>, the encoding of RFC 4648: three bytes give
  four characters of the alphabet, and a last group of one or two bytes is padded
  with \<open>=\<close>.
\<close>

definition base64_alphabet :: string where
  "base64_alphabet = ''ABCDEFGHIJKLMNOPQRSTUVWXYZabcdefghijklmnopqrstuvwxyz0123456789+/''"

fun base64_groups :: "nat list \<Rightarrow> string" where
  "base64_groups [] = []"
| "base64_groups [a] =
     [base64_alphabet ! (a div 4), base64_alphabet ! ((a mod 4) * 16), CHR ''='', CHR ''='']"
| "base64_groups [a, b] =
     [base64_alphabet ! (a div 4), base64_alphabet ! ((a mod 4) * 16 + b div 16),
      base64_alphabet ! ((b mod 16) * 4), CHR ''='']"
| "base64_groups (a # b # c # rest) =
     [base64_alphabet ! (a div 4), base64_alphabet ! ((a mod 4) * 16 + b div 16),
      base64_alphabet ! ((b mod 16) * 4 + c div 64), base64_alphabet ! (c mod 64)]
     @ base64_groups rest"

definition base64_encode :: "string \<Rightarrow> string" where
  "base64_encode b = base64_groups (map of_char b)"

text \<open>
  For running the model on concrete inputs: an installation without the optional and
  third-party libraries. Both module flags are off, \<open>import yaml\<close> and
  \<open>import markdown\<close> raise \<open>ImportError\<close>, and every call into a third-party library
  raises and leaves the stream it was given as it is. The standard library is there:
  \<open>b64encode\<close> is the encoding above, and the case mappings are those of ASCII (the
  inputs they are run on are ASCII).
\<close>

definition unavailable :: "exn + 'a" where
  "unavailable = Inl (Exn OtherError ''unavailable'')"

definition bare_libs :: "(unit, unit, unit) libs" where
  "bare_libs =
     \<lparr>DOCX_AVAILABLE = False,
      PDF_AVAILABLE = False,
      import_yaml = Some (Exn ImportError ''No module named yaml''),
      import_markdown = Some (Exn ImportError ''No module named markdown''),
      docx2pdf_convert = (\<lambda>b. unavailable),
      pd_read_csv = (\<lambda>s. (unavailable, s)),
      pd_read_excel = (\<lambda>s. (unavailable, s)),
      pd_DataFrame = (\<lambda>d. unavailable),
      df_to_json = (\<lambda>d. unavailable),
      df_to_csv = (\<lambda>d. unavailable),
      df_to_excel = (\<lambda>d. unavailable),
      json_load = (\<lambda>s. (unavailable, s)),
      json_loads = (\<lambda>t. unavailable),
      json_dumps = (\<lambda>d. unavailable),
      yaml_dump = (\<lambda>d. unavailable),
      yaml_safe_load = (\<lambda>t. unavailable),
      markdown_markdown = (\<lambda>t. unavailable),
      Image_open = (\<lambda>s. (unavailable, s)),
      image_mode = (\<lambda>i. ''RGB''),
      image_convert = (\<lambda>i m s. (unavailable, s)),
      image_save = (\<lambda>i f s. (unavailable, s)),
      b64encode = base64_encode,
      b64decode = (\<lambda>t. unavailable),
      str_upper = ascii_upper,
      str_lower = ascii_lower\<rparr>"

section \<open>tools/ai_tools.py: the request to the chat-completion service\<close>

text \<open>
  \<open>AITools.__init__\<close> reads the key from the secrets, with the empty string as default,
  and fixes the base address.
\<close>

record AITools =
  api_key :: string
  base_url :: string

definition AITools_init :: "(string \<rightharpoonup> string) \<Rightarrow> AITools" where
  "AITools_init secrets =
     \<lparr>api_key = (case secrets ''OPENROUTER_API_KEY'' of None \<Rightarrow> [] | Some k \<Rightarrow> k),
      base_url = ''https://openrouter.ai/api/v1''\<rparr>"

text \<open>
  The body of the request, the request as \<open>requests.post\<close> receives it (its address
  and its keyword arguments \<open>headers\<close>, \<open>json\<close> and \<open>timeout\<close>, in seconds), and the
  response as the code reads it: \<open>status_code\<close>, \<open>text\<close> and what \<open>json()\<close> returns
  or raises. \<open>'m\<close> is the list of messages, \<open>'j\<close> the parsed JSON.
\<close>

record 'm chat_payload =
  model :: string
  messages :: 'm
  max_tokens :: int
  temperature :: real

record 'm http_request =
  http_method :: string
  url :: string
  headers :: "(string \<times> string) list"
  json :: "'m chat_payload"
  timeout :: nat

record 'j http_response =
  status_code :: int
  response_text :: string
  response_json :: "exn + 'j"

text \<open>
  The state of a call: the page and the requests sent so far. The service is a
  parameter: what \<open>requests.post\<close> returns or raises for a request.
\<close>

record 'm ai_world =
  ai_page :: "ui_event list"
  requests_sent :: "'m http_request list"

text \<open>
  \<^verbatim>\<open>
  def make_api_request(self, messages, model, max_tokens):
      if not self.api_key:
          st.error("... OpenRouter API key not found in secrets.toml")
          return None
      headers = {"Authorization": f"Bearer {self.api_key}", "Content-Type": "application/json"}
      payload = {"model": model, "messages": messages, "max_tokens": max_tokens, "temperature": 0.7}
      try:
          response = requests.post(f"{self.base_url}/chat/completions",
                                   headers=headers, json=payload, timeout=30)
          if response.status_code == 200:
              return response.json()
          else:
              st.error(f"... API Error: {response.status_code} - {response.text}")
              return None
      except requests.exceptions.RequestException as e:
          st.error(f"... Connection Error: {str(e)}")
          return None
  \<close>
\<close>

definition api_request :: "AITools \<Rightarrow> 'm \<Rightarrow> string \<Rightarrow> int \<Rightarrow> 'm http_request" where
  "api_request self msgs mdl mx =
     (let hdrs = [(''Authorization'', ''Bearer '' @ api_key self),
                  (''Content-Type'', ''application/json'')];
          payload = \<lparr>model = mdl, messages = msgs, max_tokens = mx, temperature = 7 / 10\<rparr>
      in \<lparr>http_method = ''POST'', url = base_url self @ ''/chat/completions'',
          headers = hdrs, json = payload, timeout = 30\<rparr>)"

definition api_error_message :: "'j http_response \<Rightarrow> string" where
  "api_error_message response =
     emoji_cross @ '' API Error: '' @ str_int (status_code response) @ '' - ''
     @ response_text response"

definition connection_error_message :: "exn \<Rightarrow> string" where
  "connection_error_message e = emoji_cross @ '' Connection Error: '' @ exn_text e"

definition make_api_request ::
  "AITools \<Rightarrow> ('m http_request \<Rightarrow> exn + 'j http_response) \<Rightarrow> 'm \<Rightarrow> string \<Rightarrow> int
   \<Rightarrow> 'm ai_world \<Rightarrow> (exn + 'j option) \<times> 'm ai_world" where
  "make_api_request self requests_post msgs mdl mx w =
     (if api_key self = []
      then (Inr None,
            w\<lparr>ai_page := ai_page w
                 @ [StError (emoji_cross @ '' OpenRouter API key not found in secrets.toml'')]\<rparr>)
      else
       (let request = api_request self msgs mdl mx;
            w1 = w\<lparr>requests_sent := requests_sent w @ [request]\<rparr>
        in case requests_post request of
             Inl e \<Rightarrow>
               if exn_is RequestException e
               then (Inr None, w1\<lparr>ai_page := ai_page w1 @ [StError (connection_error_message e)]\<rparr>)
               else (Inl e, w1)
           | Inr response \<Rightarrow>
               if status_code response = 200
               then (case response_json response of
                       Inr parsed \<Rightarrow> (Inr (Some parsed), w1)
                     | Inl e \<Rightarrow>
                         if exn_is RequestException e
                         then (Inr None,
                               w1\<lparr>ai_page := ai_page w1 @ [StError (connection_error_message e)]\<rparr>)
                         else (Inl e, w1))
               else (Inr None,
                     w1\<lparr>ai_page := ai_page w1 @ [StError (api_error_message response)]\<rparr>)))"

section \<open>tools/ocr_itt.py: the stored results\<close>

text \<open>
  The keys of the session state the OCR tool owns, and one stored result, the
  dictionary \<^verbatim>\<open>{'text': ..., 'confidence': ..., 'bbox': ...}\<close>. \<open>'b\<close> is the bounding
  region the engine returns.
\<close>

record 'b ocr_block =
  block_text :: string
  block_confidence :: real
  block_bbox :: 'b

record 'b ocr_session =
  ocr_extracted_text :: string
  ocr_confidence_scores :: "real list"
  ocr_processing :: bool
  ocr_results_data :: "'b ocr_block list"

text \<open>
  \<^verbatim>\<open>
  def process_ocr_results(self, results):
      extracted_texts = []
      confidence_scores = []
      results_data = []
      for bbox, text, confidence in results:
          if text.strip():
              extracted_texts.append(text)
              confidence_scores.append(confidence)
              results_data.append({'text': text, 'confidence': confidence, 'bbox': bbox})
      st.session_state.ocr_extracted_text = '\n'.join(extracted_texts)
      st.session_state.ocr_confidence_scores = confidence_scores
      st.session_state.ocr_results_data = results_data
  \<close>
  The loop, with the three lists it appends to:
\<close>

fun ocr_loop ::
  "('b \<times> string \<times> real) list \<Rightarrow> string list \<times> real list \<times> 'b ocr_block list
   \<Rightarrow> string list \<times> real list \<times> 'b ocr_block list" where
  "ocr_loop [] acc = acc"
| "ocr_loop ((bbox, txt, confidence) # results) (extracted_texts, confidence_scores, results_data) =
     (if strip txt \<noteq> []
      then ocr_loop results
             (extracted_texts @ [txt],
              confidence_scores @ [confidence],
              results_data @ [\<lparr>block_text = txt, block_confidence = confidence,
                                block_bbox = bbox\<rparr>])
      else ocr_loop results (extracted_texts, confidence_scores, results_data))"

definition process_ocr_results ::
  "'b ocr_session \<Rightarrow> ('b \<times> string \<times> real) list \<Rightarrow> 'b ocr_session" where
  "process_ocr_results s results =
     (case ocr_loop results ([], [], []) of
        (extracted_texts, confidence_scores, results_data) \<Rightarrow>
          s\<lparr>ocr_extracted_text := join newline extracted_texts,
            ocr_confidence_scores := confidence_scores,
            ocr_results_data := results_data\<rparr>)"

text \<open>
  \<open>clear_results\<close> empties the three fields; the \<open>st.rerun()\<close> that follows starts the
  script again and changes nothing stored.
\<close>

definition clear_results :: "'b ocr_session \<Rightarrow> 'b ocr_session" where
  "clear_results s =
     s\<lparr>ocr_extracted_text := [], ocr_confidence_scores := [], ocr_results_data := []\<rparr>"

section \<open>Properties of the selector\<close>

lemma selector_of_upd_none: "selector_of (s(active_tool_key \<mapsto> PyNone)) = Some Idle"
  by (simp add: selector_of_def)

lemma selector_of_upd_str: "selector_of (s(active_tool_key \<mapsto> PyStr x)) = Some (Showing x)"
  by (simp add: selector_of_def)

lemma selector_of_cases:
  assumes "selector_of s = Some q"
  shows "(q = Idle \<and> s active_tool_key = Some PyNone) \<or>
         (\<exists>x. q = Showing x \<and> s active_tool_key = Some (PyStr x))"
  using assms by (auto simp: selector_of_def split: option.splits pyval.splits)

lemma set_active_tool_refines:
  assumes "selector_of s = Some q"
  shows "\<exists>s'. set_active_tool s (PyStr x) = Inr s' \<and> selector_of s' = Some (spec_toggle q x)"
  using selector_of_cases [OF assms]
  by (auto simp: set_active_tool_def selector_of_upd_none selector_of_upd_str)

text \<open>
  C1. The selector is the two-state machine of the specification. A fresh session
  starts in \<open>Idle\<close>; from \<open>Idle\<close>, \<open>toggle(x)\<close> gives \<open>Showing x\<close>; from \<open>Showing x\<close>,
  \<open>toggle(x)\<close> gives \<open>Idle\<close>; from \<open>Showing x\<close>, \<open>toggle(y)\<close> with \<open>y \<noteq> x\<close> gives
  \<open>Showing y\<close>; and every step of the code is the step \<open>spec_toggle\<close> of that machine,
  for all strings \<open>x\<close> and \<open>y\<close>.
\<close>

theorem selector_is_two_state_machine:
  "selector_of (init_active_tool Map.empty) = Some Idle
   \<and> (\<forall>s x. selector_of s = Some Idle \<longrightarrow>
         (\<exists>s'. set_active_tool s (PyStr x) = Inr s' \<and> selector_of s' = Some (Showing x)))
   \<and> (\<forall>s x. selector_of s = Some (Showing x) \<longrightarrow>
         (\<exists>s'. set_active_tool s (PyStr x) = Inr s' \<and> selector_of s' = Some Idle))
   \<and> (\<forall>s x y. selector_of s = Some (Showing x) \<and> y \<noteq> x \<longrightarrow>
         (\<exists>s'. set_active_tool s (PyStr y) = Inr s' \<and> selector_of s' = Some (Showing y)))
   \<and> (\<forall>s q x. selector_of s = Some q \<longrightarrow>
         (\<exists>s'. set_active_tool s (PyStr x) = Inr s' \<and> selector_of s' = Some (spec_toggle q x)))"
proof (intro conjI allI impI)
  show "selector_of (init_active_tool Map.empty) = Some Idle"
    by (simp add: init_active_tool_def selector_of_def)
next
  fix s x assume "selector_of s = Some Idle"
  from set_active_tool_refines [OF this, of x]
  show "\<exists>s'. set_active_tool s (PyStr x) = Inr s' \<and> selector_of s' = Some (Showing x)"
    by simp
next
  fix s x assume "selector_of s = Some (Showing x)"
  from set_active_tool_refines [OF this, of x]
  show "\<exists>s'. set_active_tool s (PyStr x) = Inr s' \<and> selector_of s' = Some Idle"
    by simp
next
  fix s x y assume "selector_of s = Some (Showing x) \<and> y \<noteq> x"
  then have h: "selector_of s = Some (Showing x)" and ne: "y \<noteq> x" by simp_all
  from set_active_tool_refines [OF h, of y] ne
  show "\<exists>s'. set_active_tool s (PyStr y) = Inr s' \<and> selector_of s' = Some (Showing y)"
    by simp
next
  fix s q x assume "selector_of s = Some q"
  then show "\<exists>s'. set_active_tool s (PyStr x) = Inr s' \<and> selector_of s' = Some (spec_toggle q x)"
    by (rule set_active_tool_refines)
qed

theorem selector_is_two_state_machine_witness:
  "selector_of (init_active_tool Map.empty) = Some Idle
   \<and> (\<exists>s'. set_active_tool (init_active_tool Map.empty) (PyStr ''Notepad'') = Inr s'
          \<and> selector_of s' = Some (Showing ''Notepad''))
   \<and> selector_of [active_tool_key \<mapsto> PyStr ''Notepad''] = Some (Showing ''Notepad'')
   \<and> (\<exists>s'. set_active_tool [active_tool_key \<mapsto> PyStr ''Notepad''] (PyStr ''Notepad'') = Inr s'
          \<and> selector_of s' = Some Idle)
   \<and> ''Spreadsheet'' \<noteq> ''Notepad''
   \<and> (\<exists>s'. set_active_tool [active_tool_key \<mapsto> PyStr ''Notepad''] (PyStr ''Spreadsheet'') = Inr s'
          \<and> selector_of s' = Some (Showing ''Spreadsheet''))"
proof -
  note machine = selector_is_two_state_machine
  have idle: "selector_of (init_active_tool Map.empty) = Some Idle"
    by (simp add: init_active_tool_def selector_of_def)
  have showing: "selector_of [active_tool_key \<mapsto> PyStr ''Notepad''] = Some (Showing ''Notepad'')"
    by (simp add: selector_of_def)
  have other: "''Spreadsheet'' \<noteq> ''Notepad''"
    by simp
  note from_idle = machine [THEN conjunct2, THEN conjunct1, rule_format, OF idle]
  note same = machine [THEN conjunct2, THEN conjunct2, THEN conjunct1, rule_format, OF showing]
  note differ = machine [THEN conjunct2, THEN conjunct2, THEN conjunct2, THEN conjunct1,
      rule_format, OF conjI, OF showing other]
  show ?thesis
    using idle showing other from_idle [of "''Notepad''"] same differ
    by (intro conjI)
qed

lemma set_active_tool_twice:
  assumes "s active_tool_key = Some cur"
  shows "\<exists>s1. set_active_tool s (PyStr x) = Inr s1
           \<and> set_active_tool s1 (PyStr x) =
               Inr (s(active_tool_key \<mapsto> (if cur = PyStr x then PyStr x else PyNone)))"
  using assms by (auto simp: set_active_tool_def)

text \<open>
  C2, as the specification states it, fails: with ``Notepad'' showing, two calls
  \<open>toggle(''OCR'')\<close> first show ``OCR'' and then hide it, so the identifier ends as
  none, not as ``Notepad''.
\<close>

theorem double_toggle_counterexample:
  "set_active_tool [active_tool_key \<mapsto> PyStr ''Notepad''] (PyStr ''OCR'')
     = Inr [active_tool_key \<mapsto> PyStr ''OCR'']
   \<and> set_active_tool [active_tool_key \<mapsto> PyStr ''OCR''] (PyStr ''OCR'')
     = Inr [active_tool_key \<mapsto> PyNone]
   \<and> selector_of [active_tool_key \<mapsto> PyStr ''Notepad''] = Some (Showing ''Notepad'')
   \<and> selector_of [active_tool_key \<mapsto> PyNone] = Some Idle
   \<and> [active_tool_key \<mapsto> PyNone] active_tool_key
     \<noteq> [active_tool_key \<mapsto> PyStr ''Notepad''] active_tool_key"
  by (simp add: set_active_tool_def selector_of_def)

text \<open>
  C2, amended. Two consecutive calls \<open>toggle(x)\<close> leave the session state as it was
  before the first call when the selector was \<open>Idle\<close> or \<open>Showing x\<close>; started in
  \<open>Showing y\<close> with \<open>y \<noteq> x\<close>, they end in \<open>Idle\<close>.
\<close>

theorem double_toggle_restores:
  assumes "selector_of s = Some q"
  shows "\<exists>s1 s2. set_active_tool s (PyStr x) = Inr s1 \<and> set_active_tool s1 (PyStr x) = Inr s2
           \<and> (q = Idle \<or> q = Showing x \<longrightarrow> s2 = s)
           \<and> (\<forall>y. q = Showing y \<and> y \<noteq> x \<longrightarrow> selector_of s2 = Some Idle)"
proof -
  from selector_of_cases [OF assms]
  obtain cur where cur: "s active_tool_key = Some cur"
    and q: "(q = Idle \<and> cur = PyNone) \<or> (\<exists>z. q = Showing z \<and> cur = PyStr z)"
    by auto
  from set_active_tool_twice [where s = s and cur = cur and x = x] cur
  obtain s1 where s1: "set_active_tool s (PyStr x) = Inr s1"
    and s2: "set_active_tool s1 (PyStr x) =
               Inr (s(active_tool_key \<mapsto> (if cur = PyStr x then PyStr x else PyNone)))"
    by blast
  let ?s2 = "s(active_tool_key \<mapsto> (if cur = PyStr x then PyStr x else PyNone))"
  have restored: "q = Idle \<or> q = Showing x \<longrightarrow> ?s2 = s"
    using q cur by (auto simp: fun_upd_idem_iff)
  have idle: "\<forall>y. q = Showing y \<and> y \<noteq> x \<longrightarrow> selector_of ?s2 = Some Idle"
    using q by (auto simp: selector_of_upd_none)
  from s1 s2 restored idle show ?thesis
    by blast
qed

theorem double_toggle_restores_witness:
  "selector_of [active_tool_key \<mapsto> PyStr ''Notepad''] = Some (Showing ''Notepad'')
   \<and> (\<exists>s1 s2. set_active_tool [active_tool_key \<mapsto> PyStr ''Notepad''] (PyStr ''Notepad'') = Inr s1
          \<and> set_active_tool s1 (PyStr ''Notepad'') = Inr s2
          \<and> s2 = [active_tool_key \<mapsto> PyStr ''Notepad''])
   \<and> ''Notepad'' \<noteq> ''OCR''
   \<and> (\<exists>s1 s2. set_active_tool [active_tool_key \<mapsto> PyStr ''Notepad''] (PyStr ''OCR'') = Inr s1
          \<and> set_active_tool s1 (PyStr ''OCR'') = Inr s2
          \<and> selector_of s2 = Some Idle)"
proof -
  have h: "selector_of [active_tool_key \<mapsto> PyStr ''Notepad''] = Some (Showing ''Notepad'')"
    by (simp add: selector_of_def)
  have ne: "''Notepad'' \<noteq> ''OCR''"
    by simp
  from double_toggle_restores [OF h, of "''Notepad''"]
  have same: "\<exists>s1 s2. set_active_tool [active_tool_key \<mapsto> PyStr ''Notepad''] (PyStr ''Notepad'') = Inr s1
          \<and> set_active_tool s1 (PyStr ''Notepad'') = Inr s2
          \<and> s2 = [active_tool_key \<mapsto> PyStr ''Notepad'']"
    by blast
  from double_toggle_restores [OF h, of "''OCR''"] ne
  have other: "\<exists>s1 s2. set_active_tool [active_tool_key \<mapsto> PyStr ''Notepad''] (PyStr ''OCR'') = Inr s1
          \<and> set_active_tool s1 (PyStr ''OCR'') = Inr s2
          \<and> selector_of s2 = Some Idle"
    by blast
  from h same ne other show ?thesis
    by (intro conjI)
qed

section \<open>White space and the stored OCR results\<close>

lemma whitespace_prefix_free:
  "\<forall>a\<in>set whitespace. \<forall>b\<in>set whitespace. prefix a b \<longrightarrow> a = b"
  by (simp add: whitespace_def)

lemma lstrip_by_Nil: "lstrip_by W [] = []"
proof -
  have "find (\<lambda>w. w \<noteq> [] \<and> prefix w []) W = None"
    by (auto simp: find_None_iff)
  then show ?thesis by (simp add: lstrip_by.simps)
qed

lemma lstrip_by_empty_concat:
  "lstrip_by W s = [] \<Longrightarrow> \<exists>ws. set ws \<subseteq> set W \<and> s = concat ws"
proof (induction W s rule: lstrip_by.induct)
  case (1 W s)
  show ?case
  proof (cases "find (\<lambda>w. w \<noteq> [] \<and> prefix w s) W")
    case None
    with "1.prems" have "s = []" by (simp add: lstrip_by.simps)
    then have "set [] \<subseteq> set W \<and> s = concat []" by simp
    then show ?thesis by blast
  next
    case (Some w)
    then have w: "w \<in> set W" "prefix w s"
      by (auto simp: find_Some_iff)
    from Some "1.prems" have "lstrip_by W (drop (length w) s) = []"
      by (simp add: lstrip_by.simps)
    from "1.IH" [OF Some this] obtain ws where ws: "set ws \<subseteq> set W" "drop (length w) s = concat ws"
      by blast
    from w(2) have "s = w @ drop (length w) s"
      by (auto simp: prefix_def)
    with ws w(1) have "set (w # ws) \<subseteq> set W \<and> s = concat (w # ws)"
      by simp
    then show ?thesis by blast
  qed
qed

lemma lstrip_by_concat:
  assumes free: "\<forall>a\<in>set W. \<forall>b\<in>set W. prefix a b \<longrightarrow> a = b"
  shows "set ws \<subseteq> set W \<Longrightarrow> lstrip_by W (concat ws) = []"
proof (induction ws)
  case Nil
  show ?case by (simp add: lstrip_by_Nil)
next
  case (Cons w ws)
  then have w: "w \<in> set W" and rest: "lstrip_by W (concat ws) = []" by simp_all
  show ?case
  proof (cases "w = []")
    case True
    with rest show ?thesis by simp
  next
    case False
    let ?s = "w @ concat ws"
    from w False have "\<exists>v\<in>set W. v \<noteq> [] \<and> prefix v ?s" by auto
    then obtain v where v: "find (\<lambda>v. v \<noteq> [] \<and> prefix v ?s) W = Some v"
      by (cases "find (\<lambda>v. v \<noteq> [] \<and> prefix v ?s) W") (auto simp: find_None_iff)
    then have vW: "v \<in> set W" and pv: "prefix v ?s"
      by (auto simp: find_Some_iff)
    have "prefix w ?s" by simp
    with pv have "prefix v w \<or> prefix w v"
      by (rule prefix_same_cases)
    with free vW w have "v = w" by blast
    with v have "lstrip_by W ?s = lstrip_by W (concat ws)"
      by (simp add: lstrip_by.simps [of W "w @ concat ws"])
    with rest show ?thesis by simp
  qed
qed

lemma lstrip_by_idem: "lstrip_by W (lstrip_by W s) = lstrip_by W s"
proof (induction W s rule: lstrip_by.induct)
  case (1 W s)
  show ?case
  proof (cases "find (\<lambda>w. w \<noteq> [] \<and> prefix w s) W")
    case None
    then have "lstrip_by W s = s" by (simp add: lstrip_by.simps)
    then show ?thesis by simp
  next
    case (Some w)
    then have "lstrip_by W s = lstrip_by W (drop (length w) s)"
      by (simp add: lstrip_by.simps [of W s])
    with "1.IH" [OF Some] show ?thesis by simp
  qed
qed

lemma all_whitespace_concat:
  "all_whitespace s \<longleftrightarrow> (\<exists>ws. set ws \<subseteq> set whitespace \<and> s = concat ws)"
proof
  assume "all_whitespace s"
  then show "\<exists>ws. set ws \<subseteq> set whitespace \<and> s = concat ws"
  proof (induction rule: all_whitespace.induct)
    case empty
    have "set [] \<subseteq> set whitespace \<and> [] = concat ([] :: string list)" by simp
    then show ?case by blast
  next
    case (more w s)
    then obtain ws where "set ws \<subseteq> set whitespace" "s = concat ws" by blast
    with more.hyps(1) have "set (w # ws) \<subseteq> set whitespace \<and> w @ s = concat (w # ws)" by simp
    then show ?case by blast
  qed
next
  assume "\<exists>ws. set ws \<subseteq> set whitespace \<and> s = concat ws"
  then obtain ws where "set ws \<subseteq> set whitespace" "s = concat ws" by blast
  then show "all_whitespace s"
    by (induction ws arbitrary: s) (auto intro: all_whitespace.intros)
qed

lemma lstrip_empty_iff: "lstrip s = [] \<longleftrightarrow> all_whitespace s"
  unfolding lstrip_def all_whitespace_concat
  using lstrip_by_empty_concat [of whitespace s] lstrip_by_concat [OF whitespace_prefix_free]
  by blast

lemma strip_empty_iff: "strip s = [] \<longleftrightarrow> all_whitespace s"
proof
  assume "all_whitespace s"
  then have "lstrip s = []" by (simp add: lstrip_empty_iff)
  then show "strip s = []"
    by (simp add: strip_def rstrip_def lstrip_by_Nil)
next
  assume "strip s = []"
  then have "lstrip_by (map rev whitespace) (rev (lstrip s)) = []"
    by (simp add: strip_def rstrip_def)
  from lstrip_by_empty_concat [OF this]
  obtain ws where ws: "set ws \<subseteq> set (map rev whitespace)" "rev (lstrip s) = concat ws"
    by blast
  from ws(2) have "lstrip s = rev (concat ws)"
    by (metis rev_rev_ident)
  then have eq: "lstrip s = concat (map rev (rev ws))"
    by (simp add: rev_concat)
  from ws(1) have "set (map rev (rev ws)) \<subseteq> set whitespace"
    by auto
  with eq have "all_whitespace (lstrip s)"
    unfolding all_whitespace_concat by blast
  then have "lstrip (lstrip s) = []"
    by (simp add: lstrip_empty_iff)
  then have "lstrip s = []"
    by (simp add: lstrip_def lstrip_by_idem)
  then show "all_whitespace s"
    by (simp add: lstrip_empty_iff)
qed


lemma ocr_loop_closed:
  "ocr_loop results (ts, cs, ds) =
     (ts @ map (\<lambda>r. fst (snd r)) (filter (\<lambda>r. strip (fst (snd r)) \<noteq> []) results),
      cs @ map (\<lambda>r. snd (snd r)) (filter (\<lambda>r. strip (fst (snd r)) \<noteq> []) results),
      ds @ map (\<lambda>r. \<lparr>block_text = fst (snd r), block_confidence = snd (snd r),
                        block_bbox = fst r\<rparr>)
             (filter (\<lambda>r. strip (fst (snd r)) \<noteq> []) results))"
  by (induction results arbitrary: ts cs ds) auto

lemma process_ocr_results_fields:
  "ocr_extracted_text (process_ocr_results s results) =
     join newline (map (\<lambda>r. fst (snd r)) (filter (\<lambda>r. strip (fst (snd r)) \<noteq> []) results))"
  "ocr_confidence_scores (process_ocr_results s results) =
     map (\<lambda>r. snd (snd r)) (filter (\<lambda>r. strip (fst (snd r)) \<noteq> []) results)"
  "ocr_results_data (process_ocr_results s results) =
     map (\<lambda>r. \<lparr>block_text = fst (snd r), block_confidence = snd (snd r), block_bbox = fst r\<rparr>)
       (filter (\<lambda>r. strip (fst (snd r)) \<noteq> []) results)"
  by (simp_all add: process_ocr_results_def ocr_loop_closed)

text \<open>
  C10. After \<open>process_ocr_results\<close> the stored OCR state is consistent: the list of
  confidence scores is as long as the list of detailed results (it is the list of their
  confidences), no stored result has a text of white space only, and the stored text is
  the stored results' texts joined by newlines. \<open>clear_results\<close> leaves the empty
  string and two empty lists.
\<close>

theorem ocr_state_consistent:
  "length (ocr_confidence_scores (process_ocr_results s results))
     = length (ocr_results_data (process_ocr_results s results))
   \<and> ocr_confidence_scores (process_ocr_results s results)
     = map block_confidence (ocr_results_data (process_ocr_results s results))
   \<and> (\<forall>d\<in>set (ocr_results_data (process_ocr_results s results)).
         \<not> all_whitespace (block_text d))
   \<and> ocr_extracted_text (process_ocr_results s results)
     = join newline (map block_text (ocr_results_data (process_ocr_results s results)))
   \<and> ocr_extracted_text (clear_results s) = []
   \<and> ocr_confidence_scores (clear_results s) = []
   \<and> ocr_results_data (clear_results s) = []"
  by (auto simp: process_ocr_results_fields clear_results_def strip_empty_iff comp_def)

lemma strip_Hello: "strip ''Hello'' = ''Hello''"
  by (simp add: strip_def rstrip_def lstrip_def lstrip_by.simps whitespace_def)

lemma strip_blank: "strip ''  '' = []"
  by (simp add: strip_def rstrip_def lstrip_def lstrip_by.simps whitespace_def)

lemma strip_World: "strip ''World'' = ''World''"
  by (simp add: strip_def rstrip_def lstrip_def lstrip_by.simps whitespace_def)

theorem ocr_state_consistent_witness:
  "ocr_results_data
     (process_ocr_results
        \<lparr>ocr_extracted_text = ''old'', ocr_confidence_scores = [1], ocr_processing = False,
         ocr_results_data = []\<rparr>
        [(0::nat, ''Hello'', 9 / 10), (1, ''  '', 1 / 2), (2, ''World'', 4 / 5)])
     = [\<lparr>block_text = ''Hello'', block_confidence = 9 / 10, block_bbox = 0\<rparr>,
        \<lparr>block_text = ''World'', block_confidence = 4 / 5, block_bbox = 2\<rparr>]
   \<and> \<not> all_whitespace ''Hello''
   \<and> \<not> all_whitespace ''World''
   \<and> ocr_confidence_scores
       (process_ocr_results
          \<lparr>ocr_extracted_text = ''old'', ocr_confidence_scores = [1], ocr_processing = False,
           ocr_results_data = []\<rparr>
          [(0::nat, ''Hello'', 9 / 10), (1, ''  '', 1 / 2), (2, ''World'', 4 / 5)])
     = [9 / 10, 4 / 5]
   \<and> ocr_extracted_text
       (process_ocr_results
          \<lparr>ocr_extracted_text = ''old'', ocr_confidence_scores = [1], ocr_processing = False,
           ocr_results_data = []\<rparr>
          [(0::nat, ''Hello'', 9 / 10), (1, ''  '', 1 / 2), (2, ''World'', 4 / 5)])
     = ''Hello'' @ newline @ ''World''"
proof -
  let ?s = "\<lparr>ocr_extracted_text = ''old'', ocr_confidence_scores = [1::real],
             ocr_processing = False, ocr_results_data = ([] :: nat ocr_block list)\<rparr>"
  let ?rs = "[(0::nat, ''Hello'', 9 / 10 :: real), (1, ''  '', 1 / 2), (2, ''World'', 4 / 5)]"
  have data: "ocr_results_data (process_ocr_results ?s ?rs)
      = [\<lparr>block_text = ''Hello'', block_confidence = 9 / 10, block_bbox = 0\<rparr>,
         \<lparr>block_text = ''World'', block_confidence = 4 / 5, block_bbox = 2\<rparr>]"
    by (simp add: process_ocr_results_def strip_Hello strip_blank strip_World)
  note consistent = ocr_state_consistent [of ?s ?rs]
  from consistent
  have "\<forall>d\<in>set (ocr_results_data (process_ocr_results ?s ?rs)). \<not> all_whitespace (block_text d)"
    by (elim conjE)
  with data have texts: "\<not> all_whitespace ''Hello''" "\<not> all_whitespace ''World''"
    by simp_all
  from consistent data
  have scores: "ocr_confidence_scores (process_ocr_results ?s ?rs) = [9 / 10, 4 / 5]"
    and joined: "ocr_extracted_text (process_ocr_results ?s ?rs) = ''Hello'' @ newline @ ''World''"
    by simp_all
  from data texts scores joined show ?thesis
    by (intro conjI)
qed

section \<open>The request to the chat-completion service\<close>

lemma api_request_fields:
  "http_method (api_request self msgs mdl mx) = ''POST''"
  "url (api_request self msgs mdl mx) = base_url self @ ''/chat/completions''"
  "map_of (headers (api_request self msgs mdl mx)) ''Authorization'' = Some (''Bearer '' @ api_key self)"
  "map_of (headers (api_request self msgs mdl mx)) ''Content-Type'' = Some ''application/json''"
  "json (api_request self msgs mdl mx)
     = \<lparr>model = mdl, messages = msgs, max_tokens = mx, temperature = 7 / 10\<rparr>"
  "timeout (api_request self msgs mdl mx) = 30"
  by (simp_all add: api_request_def Let_def)

lemma api_error_message_contains:
  "sublist (str_int (status_code response)) (api_error_message response)"
  "sublist (response_text response) (api_error_message response)"
proof -
  have "api_error_message response
      = (emoji_cross @ '' API Error: '') @ str_int (status_code response)
        @ ('' - '' @ response_text response)"
    by (simp add: api_error_message_def)
  then show "sublist (str_int (status_code response)) (api_error_message response)"
    unfolding sublist_def by blast
  have "api_error_message response
      = (emoji_cross @ '' API Error: '' @ str_int (status_code response) @ '' - '')
        @ response_text response @ []"
    by (simp add: api_error_message_def)
  then show "sublist (response_text response) (api_error_message response)"
    unfolding sublist_def by blast
qed

lemma connection_error_message_contains:
  "sublist (exn_text e) (connection_error_message e)"
proof -
  have "connection_error_message e = (emoji_cross @ '' Connection Error: '') @ exn_text e @ []"
    by (simp add: connection_error_message_def)
  then show ?thesis unfolding sublist_def by blast
qed

lemma make_api_request_sent:
  "api_key self \<noteq> [] \<Longrightarrow>
   requests_sent (snd (make_api_request self requests_post msgs mdl mx w))
     = requests_sent w @ [api_request self msgs mdl mx]"
  by (simp add: make_api_request_def Let_def split: sum.splits)

lemma make_api_request_ok:
  "api_key self \<noteq> [] \<Longrightarrow> requests_post (api_request self msgs mdl mx) = Inr response \<Longrightarrow>
   status_code response = 200 \<Longrightarrow> response_json response = Inr parsed \<Longrightarrow>
   fst (make_api_request self requests_post msgs mdl mx w) = Inr (Some parsed)
   \<and> ai_page (snd (make_api_request self requests_post msgs mdl mx w)) = ai_page w"
  by (simp add: make_api_request_def Let_def)

lemma make_api_request_status:
  "api_key self \<noteq> [] \<Longrightarrow> requests_post (api_request self msgs mdl mx) = Inr response \<Longrightarrow>
   status_code response \<noteq> 200 \<Longrightarrow>
   fst (make_api_request self requests_post msgs mdl mx w) = Inr None
   \<and> ai_page (snd (make_api_request self requests_post msgs mdl mx w))
       = ai_page w @ [StError (api_error_message response)]"
  by (simp add: make_api_request_def Let_def)

lemma make_api_request_exception:
  "api_key self \<noteq> [] \<Longrightarrow> requests_post (api_request self msgs mdl mx) = Inl e \<Longrightarrow>
   exn_is RequestException e \<Longrightarrow>
   fst (make_api_request self requests_post msgs mdl mx w) = Inr None
   \<and> ai_page (snd (make_api_request self requests_post msgs mdl mx w))
       = ai_page w @ [StError (connection_error_message e)]"
  by (simp add: make_api_request_def Let_def)

text \<open>
  C8. With a key configured, a call of \<open>make_api_request\<close> sends exactly one request:
  a POST with the header \<open>Authorization: Bearer <key>\<close>, the JSON body of \<open>model\<close>,
  \<open>messages\<close>, \<open>max_tokens\<close> and \<open>temperature\<close>, and a timeout of 30 seconds. On status
  200 the parsed JSON is returned and nothing is written to the page; on any other
  status an error holding the status and the body of the response is shown and \<open>None\<close>
  is returned; on a request exception (network failure, timeout) an error holding the
  text of the exception is shown and \<open>None\<close> is returned.
\<close>

theorem chat_request_contract:
  assumes key: "api_key self \<noteq> []"
  shows "requests_sent (snd (make_api_request self requests_post msgs mdl mx w))
           = requests_sent w @ [api_request self msgs mdl mx]
    \<and> http_method (api_request self msgs mdl mx) = ''POST''
    \<and> map_of (headers (api_request self msgs mdl mx)) ''Authorization''
        = Some (''Bearer '' @ api_key self)
    \<and> json (api_request self msgs mdl mx)
        = \<lparr>model = mdl, messages = msgs, max_tokens = mx, temperature = 7 / 10\<rparr>
    \<and> timeout (api_request self msgs mdl mx) = 30
    \<and> (\<forall>response parsed.
          requests_post (api_request self msgs mdl mx) = Inr response
          \<and> status_code response = 200 \<and> response_json response = Inr parsed
          \<longrightarrow> fst (make_api_request self requests_post msgs mdl mx w) = Inr (Some parsed)
              \<and> ai_page (snd (make_api_request self requests_post msgs mdl mx w)) = ai_page w)
    \<and> (\<forall>response.
          requests_post (api_request self msgs mdl mx) = Inr response
          \<and> status_code response \<noteq> 200
          \<longrightarrow> fst (make_api_request self requests_post msgs mdl mx w) = Inr None
              \<and> ai_page (snd (make_api_request self requests_post msgs mdl mx w))
                  = ai_page w @ [StError (api_error_message response)]
              \<and> sublist (str_int (status_code response)) (api_error_message response)
              \<and> sublist (response_text response) (api_error_message response))
    \<and> (\<forall>e. requests_post (api_request self msgs mdl mx) = Inl e \<and> exn_is RequestException e
          \<longrightarrow> fst (make_api_request self requests_post msgs mdl mx w) = Inr None
              \<and> ai_page (snd (make_api_request self requests_post msgs mdl mx w))
                  = ai_page w @ [StError (connection_error_message e)]
              \<and> sublist (exn_text e) (connection_error_message e))"
proof (intro conjI allI impI)
  show "requests_sent (snd (make_api_request self requests_post msgs mdl mx w))
          = requests_sent w @ [api_request self msgs mdl mx]"
    by (rule make_api_request_sent [OF key])
next
  fix response parsed
  assume "requests_post (api_request self msgs mdl mx) = Inr response
          \<and> status_code response = 200 \<and> response_json response = Inr parsed"
  then have ok: "fst (make_api_request self requests_post msgs mdl mx w) = Inr (Some parsed)
                 \<and> ai_page (snd (make_api_request self requests_post msgs mdl mx w)) = ai_page w"
    using make_api_request_ok [OF key, where requests_post = requests_post and msgs = msgs
        and mdl = mdl and mx = mx and response = response and parsed = parsed and w = w]
    by simp
  from ok show "fst (make_api_request self requests_post msgs mdl mx w) = Inr (Some parsed)" ..
  from ok show "ai_page (snd (make_api_request self requests_post msgs mdl mx w)) = ai_page w" ..
next
  fix response
  assume "requests_post (api_request self msgs mdl mx) = Inr response
          \<and> status_code response \<noteq> 200"
  then have st: "fst (make_api_request self requests_post msgs mdl mx w) = Inr None
                 \<and> ai_page (snd (make_api_request self requests_post msgs mdl mx w))
                     = ai_page w @ [StError (api_error_message response)]"
    using make_api_request_status [OF key, where requests_post = requests_post and msgs = msgs
        and mdl = mdl and mx = mx and response = response and w = w]
    by simp
  from st show "fst (make_api_request self requests_post msgs mdl mx w) = Inr None" ..
  from st show "ai_page (snd (make_api_request self requests_post msgs mdl mx w))
                  = ai_page w @ [StError (api_error_message response)]" ..
next
  fix e
  assume "requests_post (api_request self msgs mdl mx) = Inl e \<and> exn_is RequestException e"
  then have ex: "fst (make_api_request self requests_post msgs mdl mx w) = Inr None
                 \<and> ai_page (snd (make_api_request self requests_post msgs mdl mx w))
                     = ai_page w @ [StError (connection_error_message e)]"
    using make_api_request_exception [OF key, where requests_post = requests_post
        and msgs = msgs and mdl = mdl and mx = mx and e = e and w = w]
    by simp
  from ex show "fst (make_api_request self requests_post msgs mdl mx w) = Inr None" ..
  from ex show "ai_page (snd (make_api_request self requests_post msgs mdl mx w))
                  = ai_page w @ [StError (connection_error_message e)]" ..
qed (simp_all add: api_request_fields api_error_message_contains
       connection_error_message_contains)

lemma str_int_429: "str_int 429 = ''429''"
  by (simp add: str_int_def digits.simps)

theorem chat_request_contract_witness:
  "api_key \<lparr>api_key = ''sk-test'', base_url = ''https://openrouter.ai/api/v1''\<rparr> \<noteq> []
   \<and> (429::int) \<noteq> 200
   \<and> fst (make_api_request \<lparr>api_key = ''sk-test'', base_url = ''https://openrouter.ai/api/v1''\<rparr>
            (\<lambda>r. Inr \<lparr>status_code = 429, response_text = ''slow down'',
                       response_json = (Inl (Exn OtherError ''no JSON'') :: exn + unit)\<rparr>)
            [(''user'', ''hi'')] ''google/gemma-3-27b-it:free'' 1000
            \<lparr>ai_page = [], requests_sent = []\<rparr>) = Inr None
   \<and> ai_page (snd (make_api_request \<lparr>api_key = ''sk-test'', base_url = ''https://openrouter.ai/api/v1''\<rparr>
            (\<lambda>r. Inr \<lparr>status_code = 429, response_text = ''slow down'',
                       response_json = (Inl (Exn OtherError ''no JSON'') :: exn + unit)\<rparr>)
            [(''user'', ''hi'')] ''google/gemma-3-27b-it:free'' 1000
            \<lparr>ai_page = [], requests_sent = []\<rparr>))
       = [StError (emoji_cross @ '' API Error: 429 - slow down'')]"
proof -
  let ?self = "\<lparr>api_key = ''sk-test'', base_url = ''https://openrouter.ai/api/v1''\<rparr>"
  let ?resp = "\<lparr>status_code = 429, response_text = ''slow down'',
                 response_json = (Inl (Exn OtherError ''no JSON'') :: exn + unit)\<rparr>"
  let ?post = "\<lambda>r :: (string \<times> string) list http_request. (Inr ?resp :: exn + unit http_response)"
  let ?w = "\<lparr>ai_page = [], requests_sent = []\<rparr> :: (string \<times> string) list ai_world"
  have key: "api_key ?self \<noteq> []" by simp
  note contract = chat_request_contract [OF key, of ?post "[(''user'', ''hi'')]"
      "''google/gemma-3-27b-it:free''" 1000 ?w]
  from contract
  have "?post (api_request ?self [(''user'', ''hi'')] ''google/gemma-3-27b-it:free'' 1000) = Inr ?resp
        \<and> status_code ?resp \<noteq> 200
        \<longrightarrow> fst (make_api_request ?self ?post [(''user'', ''hi'')] ''google/gemma-3-27b-it:free'' 1000 ?w)
              = Inr None
          \<and> ai_page (snd (make_api_request ?self ?post [(''user'', ''hi'')]
                ''google/gemma-3-27b-it:free'' 1000 ?w))
              = ai_page ?w @ [StError (api_error_message ?resp)]"
    by blast
  then show ?thesis
    by (simp add: api_error_message_def str_int_429)
qed

section \<open>The converter: what a call changes and what it offers\<close>

lemma page_emit: "page (emit ev w) = page w @ [ev]"
  by (simp add: emit_def)

lemma converter_emit: "converter (emit ev w) = converter w"
  by (simp add: emit_def)

lemma docx_to_pdf_frame:
  "converter (snd (docx_to_pdf L f w)) = converter w"
  "StSelectbox l os \<in> set (page (snd (docx_to_pdf L f w))) \<longleftrightarrow> StSelectbox l os \<in> set (page w)"
  "fst (docx_to_pdf L f w) = fst (docx_to_pdf L f w')"
  by (auto simp: docx_to_pdf_def page_emit converter_emit split: prod.splits)

lemma json_to_yaml_frame:
  "converter (snd (json_to_yaml L t w)) = converter w"
  "StSelectbox l os \<in> set (page (snd (json_to_yaml L t w))) \<longleftrightarrow> StSelectbox l os \<in> set (page w)"
  "fst (json_to_yaml L t w) = fst (json_to_yaml L t w')"
  by (auto simp: json_to_yaml_def page_emit converter_emit split: sum.splits option.splits)

lemma yaml_to_json_frame:
  "converter (snd (yaml_to_json L t w)) = converter w"
  "StSelectbox l os \<in> set (page (snd (yaml_to_json L t w))) \<longleftrightarrow> StSelectbox l os \<in> set (page w)"
  "fst (yaml_to_json L t w) = fst (yaml_to_json L t w')"
  by (auto simp: yaml_to_json_def page_emit converter_emit split: sum.splits option.splits)

lemma caught_frame:
  "converter (snd (caught p r)) = converter (snd r)"
  "StSelectbox l os \<in> set (page (snd (caught p r))) \<longleftrightarrow> StSelectbox l os \<in> set (page (snd r))"
  "fst (caught p r) = (case fst r of Inr v \<Rightarrow> v | Inl e \<Rightarrow> PyNone)"
  by (auto simp: caught_def page_emit converter_emit split: prod.splits sum.splits)

lemma convert_text_frame:
  "converter (snd (convert_text L t c i o' w)) = converter w"
  "StSelectbox l os \<in> set (page (snd (convert_text L t c i o' w))) \<longleftrightarrow> StSelectbox l os \<in> set (page w)"
  by (simp_all add: convert_text_def caught_frame json_to_yaml_frame yaml_to_json_frame
        page_emit converter_emit text_not_implemented_def)

lemma convert_text_pure:
  "fst (convert_text L t c i1 o1 w1) = fst (convert_text L t c i2 o2 w2)"
  using json_to_yaml_frame(3) [of L t w1 w2] yaml_to_json_frame(3) [of L t w1 w2]
  by (simp add: convert_text_def caught_frame)

lemma convert_file_frame:
  "converter (snd (snd (convert_file L f c i o' w))) = converter w"
  "StSelectbox l os \<in> set (page (snd (snd (convert_file L f c i o' w))))
     \<longleftrightarrow> StSelectbox l os \<in> set (page w)"
  by (simp_all add: convert_file_def caught_frame docx_to_pdf_frame case_prod_beta
        page_emit converter_emit file_not_implemented_def)

lemma convert_file_pure:
  "fst (convert_file L f c i1 o' w1) = fst (convert_file L f c i2 o' w2)"
  "fst (snd (convert_file L f c i1 o' w1)) = fst (snd (convert_file L f c i2 o' w2))"
  using docx_to_pdf_frame(3) [of L f w1 w2]
  by (simp_all add: convert_file_def caught_frame case_prod_beta)

lemma provide_download_frame:
  "converter (provide_download L d o' n w) = converter w"
  "StSelectbox l os \<in> set (page (provide_download L d o' n w)) \<longleftrightarrow> StSelectbox l os \<in> set (page w)"
  by (simp_all add: provide_download_def Let_def page_emit converter_emit)

lemma handle_text_input_frame:
  "converter (handle_text_input L u c i o' w) = converter w"
  "StSelectbox l os \<in> set (page (handle_text_input L u c i o' w)) \<longleftrightarrow> StSelectbox l os \<in> set (page w)"
  by (simp_all add: handle_text_input_def Let_def text_area_def button_def page_emit
        converter_emit convert_text_frame case_prod_beta)

lemma handle_file_input_frame:
  "converter (handle_file_input L u c i o' w) = converter w"
  "StSelectbox l os \<in> set (page (handle_file_input L u c i o' w)) \<longleftrightarrow> StSelectbox l os \<in> set (page w)"
  by (simp_all add: handle_file_input_def Let_def file_uploader_def button_def page_emit
        converter_emit convert_file_frame provide_download_frame case_prod_beta
        split: option.splits)

lemma handle_base64_input_frame:
  "converter (handle_base64_input L u c w) = converter w"
  "StSelectbox l os \<in> set (page (handle_base64_input L u c w)) \<longleftrightarrow> StSelectbox l os \<in> set (page w)"
  by (simp_all add: handle_base64_input_def Let_def text_area_def button_def page_emit
        converter_emit case_prod_beta split: sum.splits prod.splits)


lemma map_of_nth:
  assumes "i < length xs" and "xs ! i = (k, v)" and "distinct (map fst xs)"
  shows "map_of xs k = Some v"
proof -
  from assms(1,2) have "(k, v) \<in> set xs"
    by (metis nth_mem)
  with assms(3) show ?thesis
    by simp
qed

lemma available_conversions_iff:
  assumes "distinct (map fst conversions)" and "(k, info) \<in> set conversions"
  shows "k \<in> set (available_conversions conversions) \<longleftrightarrow> available info"
proof
  assume "k \<in> set (available_conversions conversions)"
  then obtain info' where "(k, info') \<in> set conversions" "available info'"
    by (auto simp: available_conversions_def)
  with assms show "available info"
    by (auto dest: eq_key_imp_eq_value)
next
  assume "available info"
  with assms(2) show "k \<in> set (available_conversions conversions)"
    by (force simp: available_conversions_def)
qed

lemma available_conversions_lookup:
  assumes "k \<in> set (available_conversions conversions)"
  shows "\<exists>info. map_of conversions k = Some info"
proof -
  from assms have "k \<in> fst ` set conversions"
    by (auto simp: available_conversions_def)
  then show ?thesis
    by (cases "map_of conversions k") (auto simp: map_of_eq_None_iff)
qed

lemma render_empty:
  assumes "category_index u < length (supported_conversions (converter w))"
    and "supported_conversions (converter w) ! category_index u = (category, conversions)"
    and "distinct (map fst (supported_conversions (converter w)))"
    and "available_conversions conversions = []"
  shows "fst (render_file_converter L u w) = Inr ()"
    and "\<exists>evs. page (snd (render_file_converter L u w)) = page w @ evs @ [StError no_conversions_message]
            \<and> (\<forall>opts. StSelectbox conversion_label opts \<notin> set evs)"
    and "converter (snd (render_file_converter L u w)) = converter w"
proof -
  from map_of_nth [OF assms(1,2,3)]
  have look: "map_of (supported_conversions (converter w)) category = Some conversions" .
  from assms(1,2) have nth: "map fst (supported_conversions (converter w)) ! category_index u = category"
    by simp
  show "fst (render_file_converter L u w) = Inr ()"
    using assms(1,4) look nth
    by (simp add: render_file_converter_def Let_def selectbox_def converter_emit)
  show "converter (snd (render_file_converter L u w)) = converter w"
    using assms(1,4) look nth
    by (simp add: render_file_converter_def Let_def selectbox_def converter_emit)
  have "page (snd (render_file_converter L u w))
      = page w @ ([StSubheader (emoji_convert @ '' File Converter'')]
          @ (if \<not> DOCX_AVAILABLE L
             then [StWarning (emoji_package
                    @ '' Install `python-docx` and `docx2pdf` for DOCX to PDF conversion'')]
             else [])
          @ (if \<not> PDF_AVAILABLE L
             then [StWarning (emoji_package @ '' Install `PyMuPDF` for advanced PDF operations'')]
             else [])
          @ [StSelectbox category_label (map fst (supported_conversions (converter w)))])
        @ [StError no_conversions_message]"
    using assms(1,4) look nth
    by (simp add: render_file_converter_def Let_def selectbox_def converter_emit page_emit)
  moreover have "category_label \<noteq> conversion_label"
    by (simp add: category_label_def conversion_label_def)
  ultimately show "\<exists>evs. page (snd (render_file_converter L u w))
      = page w @ evs @ [StError no_conversions_message]
      \<and> (\<forall>opts. StSelectbox conversion_label opts \<notin> set evs)"
    by (intro exI [of _ "[StSubheader (emoji_convert @ '' File Converter'')]
          @ (if \<not> DOCX_AVAILABLE L
             then [StWarning (emoji_package
                    @ '' Install `python-docx` and `docx2pdf` for DOCX to PDF conversion'')]
             else [])
          @ (if \<not> PDF_AVAILABLE L
             then [StWarning (emoji_package @ '' Install `PyMuPDF` for advanced PDF operations'')]
             else [])
          @ [StSelectbox category_label (map fst (supported_conversions (converter w)))]"]) auto
qed

lemma render_offers:
  assumes "category_index u < length (supported_conversions (converter w))"
    and "supported_conversions (converter w) ! category_index u = (category, conversions)"
    and "distinct (map fst (supported_conversions (converter w)))"
    and "available_conversions conversions \<noteq> []"
    and "\<forall>label opts. StSelectbox label opts \<notin> set (page w)"
  shows "StSelectbox conversion_label opts \<in> set (page (snd (render_file_converter L u w)))
         \<longleftrightarrow> opts = available_conversions conversions"
proof -
  from map_of_nth [OF assms(1,2,3)]
  have look: "map_of (supported_conversions (converter w)) category = Some conversions" .
  from assms(1,2) have nth: "map fst (supported_conversions (converter w)) ! category_index u = category"
    by simp
  have labels: "category_label \<noteq> conversion_label"
    by (simp add: category_label_def conversion_label_def)
  show ?thesis
  proof (cases "conversion_index u < length (available_conversions conversions)")
    case False
    then show ?thesis
      using assms(1,4,5) look nth labels
      by (auto simp: render_file_converter_def Let_def selectbox_def converter_emit page_emit)
  next
    case True
    then have "available_conversions conversions ! conversion_index u
                 \<in> set (available_conversions conversions)"
      by simp
    from available_conversions_lookup [OF this]
    obtain info where info: "map_of conversions
        (available_conversions conversions ! conversion_index u) = Some info"
      by blast
    show ?thesis
      using True assms(1,4,5) look nth labels info
      by (auto simp: render_file_converter_def Let_def selectbox_def converter_emit page_emit
            handle_base64_input_frame handle_text_input_frame handle_file_input_frame)
  qed
qed

text \<open>
  C3. For the category the user picks, in a registry whose keys are distinct as those
  of a dictionary are, and on a page drawn afresh: every list the page offers under
  ``Select Conversion Type'' is the list of the available entries of that category, the
  list is offered whenever it is not empty, and an entry of the category is in the list
  if and only if its availability flag is true.
\<close>

theorem offered_iff_available:
  assumes sel: "category_index u < length (supported_conversions (converter w))"
      "supported_conversions (converter w) ! category_index u = (category, conversions)"
    and keys: "distinct (map fst (supported_conversions (converter w)))"
      "distinct (map fst conversions)"
    and fresh: "page w = []"
  shows "(\<forall>opts. StSelectbox conversion_label opts \<in> set (page (snd (render_file_converter L u w)))
            \<longrightarrow> opts = available_conversions conversions)
    \<and> (available_conversions conversions \<noteq> []
         \<longrightarrow> StSelectbox conversion_label (available_conversions conversions)
               \<in> set (page (snd (render_file_converter L u w))))
    \<and> (\<forall>k info. (k, info) \<in> set conversions
         \<longrightarrow> (k \<in> set (available_conversions conversions) \<longleftrightarrow> available info))"
proof (intro conjI allI impI)
  fix opts
  assume offered: "StSelectbox conversion_label opts \<in> set (page (snd (render_file_converter L u w)))"
  show "opts = available_conversions conversions"
  proof (cases "available_conversions conversions = []")
    case True
    from render_empty(2) [OF sel keys(1) True, of L]
    obtain evs where "page (snd (render_file_converter L u w))
          = page w @ evs @ [StError no_conversions_message]"
      and "\<forall>opts. StSelectbox conversion_label opts \<notin> set evs"
      by blast
    with offered fresh show ?thesis by simp
  next
    case False
    from fresh have "\<forall>label opts. StSelectbox label opts \<notin> set (page w)" by simp
    from render_offers [OF sel keys(1) False this, of opts L] offered
    show ?thesis by simp
  qed
next
  assume ne: "available_conversions conversions \<noteq> []"
  from fresh have "\<forall>label opts. StSelectbox label opts \<notin> set (page w)" by simp
  from render_offers [OF sel keys(1) ne this, of "available_conversions conversions" L]
  show "StSelectbox conversion_label (available_conversions conversions)
          \<in> set (page (snd (render_file_converter L u w)))"
    by simp
next
  fix k info
  assume "(k, info) \<in> set conversions"
  from available_conversions_iff [OF keys(2) this]
  show "k \<in> set (available_conversions conversions) \<longleftrightarrow> available info" .
qed

text \<open>
  C4. When no entry of the picked category is available, \<open>render_file_converter\<close>
  returns normally (no exception), the last thing it puts on the page is the error
  ``No conversions available in this category...'', it offers no conversion type, and
  the converter is unchanged.
\<close>

theorem empty_category_reported:
  assumes "category_index u < length (supported_conversions (converter w))"
    and "supported_conversions (converter w) ! category_index u = (category, conversions)"
    and "distinct (map fst (supported_conversions (converter w)))"
    and "available_conversions conversions = []"
  shows "fst (render_file_converter L u w) = Inr ()
    \<and> (\<exists>evs. page (snd (render_file_converter L u w))
                = page w @ evs @ [StError no_conversions_message]
              \<and> (\<forall>opts. StSelectbox conversion_label opts \<notin> set evs))
    \<and> converter (snd (render_file_converter L u w)) = converter w"
  using render_empty [OF assms, of L] by (intro conjI)


lemma bare_registry:
  "supported_conversions (converter \<lparr>converter = FileConverter_init bare_libs, page = []\<rparr>) ! 0
     = (''Document Conversions'',
        [(''DOCX to PDF'', \<lparr>input_kind = ''docx'', output_kind = ''pdf'', available = False\<rparr>),
         (''TXT to PDF'', \<lparr>input_kind = ''txt'', output_kind = ''pdf'', available = False\<rparr>),
         (''MD to HTML'', \<lparr>input_kind = ''md'', output_kind = ''html'', available = True\<rparr>)])"
  "distinct (map fst (supported_conversions
     (converter \<lparr>converter = FileConverter_init bare_libs, page = []\<rparr>)))"
  "length (supported_conversions
     (converter \<lparr>converter = FileConverter_init bare_libs, page = []\<rparr>)) = 4"
  by (simp_all add: FileConverter_init_def bare_libs_def)

theorem offered_iff_available_witness:
  "StSelectbox conversion_label [''MD to HTML'']
     \<in> set (page (snd (render_file_converter bare_libs
          \<lparr>category_index = 0, conversion_index = 0, text_typed = [], file_uploaded = None,
           button_clicked = False\<rparr>
          \<lparr>converter = FileConverter_init bare_libs, page = []\<rparr>)))
   \<and> ''DOCX to PDF'' \<notin> set (available_conversions
        [(''DOCX to PDF'', \<lparr>input_kind = ''docx'', output_kind = ''pdf'', available = False\<rparr>),
         (''TXT to PDF'', \<lparr>input_kind = ''txt'', output_kind = ''pdf'', available = False\<rparr>),
         (''MD to HTML'', \<lparr>input_kind = ''md'', output_kind = ''html'', available = True\<rparr>)])
   \<and> ''MD to HTML'' \<in> set (available_conversions
        [(''DOCX to PDF'', \<lparr>input_kind = ''docx'', output_kind = ''pdf'', available = False\<rparr>),
         (''TXT to PDF'', \<lparr>input_kind = ''txt'', output_kind = ''pdf'', available = False\<rparr>),
         (''MD to HTML'', \<lparr>input_kind = ''md'', output_kind = ''html'', available = True\<rparr>)])"
proof -
  let ?u = "\<lparr>category_index = 0, conversion_index = 0, text_typed = [], file_uploaded = None,
             button_clicked = False\<rparr>"
  let ?w = "\<lparr>converter = FileConverter_init bare_libs, page = []\<rparr>"
  let ?rows =
    "[(''DOCX to PDF'', \<lparr>input_kind = ''docx'', output_kind = ''pdf'', available = False\<rparr>),
      (''TXT to PDF'', \<lparr>input_kind = ''txt'', output_kind = ''pdf'', available = False\<rparr>),
      (''MD to HTML'', \<lparr>input_kind = ''md'', output_kind = ''html'', available = True\<rparr>)]"
  have sel: "category_index ?u < length (supported_conversions (converter ?w))"
    using bare_registry(3) by simp
  have row: "supported_conversions (converter ?w) ! category_index ?u
               = (''Document Conversions'', ?rows)"
    using bare_registry(1) by simp
  have keys: "distinct (map fst ?rows)" by simp
  have fresh: "page ?w = []" by simp
  have listed: "available_conversions ?rows = [''MD to HTML'']"
    by (simp add: available_conversions_def)
  note offered = offered_iff_available [OF sel row bare_registry(2) keys fresh, of bare_libs]
  from offered listed
  have box: "StSelectbox conversion_label [''MD to HTML'']
      \<in> set (page (snd (render_file_converter bare_libs ?u ?w)))"
    by simp
  from offered
  have "(''DOCX to PDF'', \<lparr>input_kind = ''docx'', output_kind = ''pdf'', available = False\<rparr>)
          \<in> set ?rows
        \<longrightarrow> (''DOCX to PDF'' \<in> set (available_conversions ?rows)
              \<longleftrightarrow> available \<lparr>input_kind = ''docx'', output_kind = ''pdf'', available = False\<rparr>)"
    and "(''MD to HTML'', \<lparr>input_kind = ''md'', output_kind = ''html'', available = True\<rparr>)
          \<in> set ?rows
        \<longrightarrow> (''MD to HTML'' \<in> set (available_conversions ?rows)
              \<longleftrightarrow> available \<lparr>input_kind = ''md'', output_kind = ''html'', available = True\<rparr>)"
    by blast+
  then have "''DOCX to PDF'' \<notin> set (available_conversions ?rows)"
    and "''MD to HTML'' \<in> set (available_conversions ?rows)"
    by simp_all
  with box show ?thesis by (intro conjI)
qed

theorem empty_category_reported_witness:
  "fst (render_file_converter bare_libs
          \<lparr>category_index = 0, conversion_index = 0, text_typed = [], file_uploaded = None,
           button_clicked = False\<rparr>
          \<lparr>converter = \<lparr>supported_conversions =
              [(''Document Conversions'',
                [(''DOCX to PDF'',
                  \<lparr>input_kind = ''docx'', output_kind = ''pdf'', available = False\<rparr>)])]\<rparr>,
           page = []\<rparr>) = Inr ()
   \<and> (\<exists>evs. page (snd (render_file_converter bare_libs
          \<lparr>category_index = 0, conversion_index = 0, text_typed = [], file_uploaded = None,
           button_clicked = False\<rparr>
          \<lparr>converter = \<lparr>supported_conversions =
              [(''Document Conversions'',
                [(''DOCX to PDF'',
                  \<lparr>input_kind = ''docx'', output_kind = ''pdf'', available = False\<rparr>)])]\<rparr>,
           page = []\<rparr>)) = evs @ [StError no_conversions_message]
        \<and> (\<forall>opts. StSelectbox conversion_label opts \<notin> set evs))"
proof -
  let ?u = "\<lparr>category_index = 0, conversion_index = 0, text_typed = [], file_uploaded = None,
             button_clicked = False\<rparr>"
  let ?rows = "[(''DOCX to PDF'',
                 \<lparr>input_kind = ''docx'', output_kind = ''pdf'', available = False\<rparr>)]"
  let ?w = "\<lparr>converter = \<lparr>supported_conversions = [(''Document Conversions'', ?rows)]\<rparr>,
             page = []\<rparr>"
  have sel: "category_index ?u < length (supported_conversions (converter ?w))" by simp
  have row: "supported_conversions (converter ?w) ! category_index ?u
               = (''Document Conversions'', ?rows)" by simp
  have keys: "distinct (map fst (supported_conversions (converter ?w)))" by simp
  have none: "available_conversions ?rows = []"
    by (simp add: available_conversions_def)
  from empty_category_reported [OF sel row keys none, of bare_libs]
  show ?thesis by simp
qed

lemma render_routes:
  assumes sel: "category_index u < length (supported_conversions (converter w))"
      "supported_conversions (converter w) ! category_index u = (category, conversions)"
    and keys: "distinct (map fst (supported_conversions (converter w)))"
    and pick: "conversion_index u < length (available_conversions conversions)"
      "available_conversions conversions ! conversion_index u = entry"
    and row: "map_of conversions entry = Some info"
    and kind: "input_kind info \<noteq> ''base64''"
  shows "\<exists>w'. snd (render_file_converter L u w)
           = (if input_kind info \<in> set [''txt'', ''md'', ''json'', ''yaml'']
              then handle_text_input L u entry (input_kind info) (output_kind info) w'
              else handle_file_input L u entry (input_kind info) (output_kind info) w')"
proof -
  from map_of_nth [OF sel keys]
  have look: "map_of (supported_conversions (converter w)) category = Some conversions" .
  from sel have nth: "map fst (supported_conversions (converter w)) ! category_index u = category"
    by simp
  from pick(1) have ne: "available_conversions conversions \<noteq> []"
    by auto
  define drawn where "drawn =
     emit (StInfo (''Converting from **'' @ str_upper L (input_kind info)
             @ ''** to **'' @ str_upper L (output_kind info) @ ''**''))
       (snd (selectbox conversion_label (available_conversions conversions)
          (conversion_index u)
          (snd (selectbox category_label (map fst (supported_conversions (converter w)))
             (category_index u)
             (if \<not> PDF_AVAILABLE L
              then emit (StWarning (emoji_package
                     @ '' Install `PyMuPDF` for advanced PDF operations''))
                     (if \<not> DOCX_AVAILABLE L
                      then emit (StWarning (emoji_package
                        @ '' Install `python-docx` and `docx2pdf` for DOCX to PDF conversion''))
                        (emit (StSubheader (emoji_convert @ '' File Converter'')) w)
                      else emit (StSubheader (emoji_convert @ '' File Converter'')) w)
              else (if \<not> DOCX_AVAILABLE L
                      then emit (StWarning (emoji_package
                        @ '' Install `python-docx` and `docx2pdf` for DOCX to PDF conversion''))
                        (emit (StSubheader (emoji_convert @ '' File Converter'')) w)
                      else emit (StSubheader (emoji_convert @ '' File Converter'')) w))))))"
  have "snd (render_file_converter L u w)
      = (if input_kind info \<in> set [''txt'', ''md'', ''json'', ''yaml'']
         then handle_text_input L u entry (input_kind info) (output_kind info) drawn
         else handle_file_input L u entry (input_kind info) (output_kind info) drawn)"
    unfolding drawn_def
    using sel(1) look nth ne pick row kind
    by (simp add: render_file_converter_def Let_def selectbox_def converter_emit case_prod_beta)
  then show ?thesis by blast
qed

lemma convert_text_json_to_csv:
  "convert_text L t ''JSON to CSV'' i o' w
     = (PyNone, emit (text_not_implemented ''JSON to CSV'') w)"
  by (simp add: convert_text_def caught_def)

lemma handle_text_input_json_to_csv:
  assumes "text_typed u \<noteq> []" and "button_clicked u"
  shows "\<exists>evs. page (handle_text_input L u ''JSON to CSV'' i o' w)
           = page w @ evs @ [text_not_implemented ''JSON to CSV'', StError ''Conversion failed!'']"
proof -
  have "page (handle_text_input L u ''JSON to CSV'' i o' w)
      = page w @ [StMarkdown (''#### Input '' @ str_upper L i @ '' content:''),
                  StTextArea (''Enter '' @ str_upper L i @ '' content'') (text_placeholder i),
                  StButton (emoji_convert @ '' Convert to '' @ str_upper L o')]
        @ [text_not_implemented ''JSON to CSV'', StError ''Conversion failed!'']"
    using assms
    by (simp add: handle_text_input_def Let_def text_area_def button_def
          convert_text_json_to_csv page_emit)
  then show ?thesis by blast
qed

lemma convert_file_csv_to_html_table:
  "convert_file L f ''CSV to HTML Table'' i o' w
     = (PyNone, f, emit (file_not_implemented ''CSV to HTML Table'') w)"
  by (simp add: convert_file_def caught_def)

lemma handle_file_input_csv_to_html_table:
  assumes "file_uploaded u = Some f" and "button_clicked u"
  shows "\<exists>evs. page (handle_file_input L u ''CSV to HTML Table'' i o' w)
           = page w @ evs
             @ [file_not_implemented ''CSV to HTML Table'', StError ''Conversion failed!'']"
proof -
  have "page (handle_file_input L u ''CSV to HTML Table'' i o' w)
      = page w @ [StFileUploader (''Upload '' @ str_upper L i @ '' file'')
                    (case map_of file_types i of Some t \<Rightarrow> t | None \<Rightarrow> [i]),
                  StSuccess (emoji_check @ '' File uploaded: '' @ name f),
                  StButton (emoji_convert @ '' Convert to '' @ str_upper L o')]
        @ [file_not_implemented ''CSV to HTML Table'', StError ''Conversion failed!'']"
    using assms
    by (simp add: handle_file_input_def Let_def file_uploader_def button_def
          convert_file_csv_to_html_table page_emit)
  then show ?thesis by blast
qed

lemma registry_rows:
  "supported_conversions (FileConverter_init L) ! 1
     = (''Data Conversions'',
        [(''CSV to JSON'', \<lparr>input_kind = ''csv'', output_kind = ''json'', available = True\<rparr>),
         (''JSON to CSV'', \<lparr>input_kind = ''json'', output_kind = ''csv'', available = True\<rparr>),
         (''Excel to CSV'', \<lparr>input_kind = ''xlsx'', output_kind = ''csv'', available = True\<rparr>),
         (''CSV to Excel'', \<lparr>input_kind = ''csv'', output_kind = ''xlsx'', available = True\<rparr>)])"
  "supported_conversions (FileConverter_init L) ! 3
     = (''Text Conversions'',
        [(''JSON to YAML'', \<lparr>input_kind = ''json'', output_kind = ''yaml'', available = True\<rparr>),
         (''YAML to JSON'', \<lparr>input_kind = ''yaml'', output_kind = ''json'', available = True\<rparr>),
         (''CSV to HTML Table'',
            \<lparr>input_kind = ''csv'', output_kind = ''html'', available = True\<rparr>)])"
  "length (supported_conversions (FileConverter_init L)) = 4"
  "distinct (map fst (supported_conversions (FileConverter_init L)))"
  by (simp_all add: FileConverter_init_def)

lemma json_to_csv_page:
  "\<exists>evs. page (snd (render_file_converter L
          \<lparr>category_index = 1, conversion_index = 1, text_typed = ''[{\"a\": 1}]'',
           file_uploaded = None, button_clicked = True\<rparr>
          \<lparr>converter = FileConverter_init L, page = []\<rparr>))
        = evs @ [text_not_implemented ''JSON to CSV'', StError ''Conversion failed!'']"
proof -
  let ?u = "\<lparr>category_index = 1, conversion_index = 1, text_typed = ''[{\"a\": 1}]'',
             file_uploaded = None, button_clicked = True\<rparr>"
  let ?w = "\<lparr>converter = FileConverter_init L, page = []\<rparr>"
  let ?rows =
    "[(''CSV to JSON'', \<lparr>input_kind = ''csv'', output_kind = ''json'', available = True\<rparr>),
      (''JSON to CSV'', \<lparr>input_kind = ''json'', output_kind = ''csv'', available = True\<rparr>),
      (''Excel to CSV'', \<lparr>input_kind = ''xlsx'', output_kind = ''csv'', available = True\<rparr>),
      (''CSV to Excel'', \<lparr>input_kind = ''csv'', output_kind = ''xlsx'', available = True\<rparr>)]"
  let ?info = "\<lparr>input_kind = ''json'', output_kind = ''csv'', available = True\<rparr>"
  have listed: "available_conversions ?rows
                  = [''CSV to JSON'', ''JSON to CSV'', ''Excel to CSV'', ''CSV to Excel'']"
    by (simp add: available_conversions_def)
  have sel: "category_index ?u < length (supported_conversions (converter ?w))"
    by (simp add: registry_rows(3))
  have row: "supported_conversions (converter ?w) ! category_index ?u
               = (''Data Conversions'', ?rows)"
    using registry_rows(1) [of L] by simp
  have keys: "distinct (map fst (supported_conversions (converter ?w)))"
    by (simp add: registry_rows(4))
  have pick: "conversion_index ?u < length (available_conversions ?rows)"
      "available_conversions ?rows ! conversion_index ?u = ''JSON to CSV''"
    by (simp_all add: listed)
  have info: "map_of ?rows ''JSON to CSV'' = Some ?info"
    by simp
  have kind: "input_kind ?info \<noteq> ''base64''"
    by simp
  from render_routes [OF sel row keys pick info kind, of L]
  obtain w' where "snd (render_file_converter L ?u ?w)
      = handle_text_input L ?u ''JSON to CSV'' (input_kind ?info) (output_kind ?info) w'"
    by auto
  moreover have "text_typed ?u \<noteq> []" and "button_clicked ?u"
    by simp_all
  from handle_text_input_json_to_csv [OF this, of L "input_kind ?info" "output_kind ?info" w']
  obtain evs where "page (handle_text_input L ?u ''JSON to CSV'' (input_kind ?info)
        (output_kind ?info) w')
      = page w' @ evs @ [text_not_implemented ''JSON to CSV'', StError ''Conversion failed!'']"
    by blast
  ultimately have "page (snd (render_file_converter L ?u ?w))
      = (page w' @ evs) @ [text_not_implemented ''JSON to CSV'', StError ''Conversion failed!'']"
    by simp
  then show ?thesis by blast
qed

lemma csv_to_html_table_page:
  "\<exists>evs. page (snd (render_file_converter L
          \<lparr>category_index = 3, conversion_index = 2, text_typed = [],
           file_uploaded = Some \<lparr>name = ''table.csv'',
                                 buffer = \<lparr>contents = ''a,b'', position = 0\<rparr>\<rparr>,
           button_clicked = True\<rparr>
          \<lparr>converter = FileConverter_init L, page = []\<rparr>))
        = evs @ [file_not_implemented ''CSV to HTML Table'', StError ''Conversion failed!'']"
proof -
  let ?f = "\<lparr>name = ''table.csv'', buffer = \<lparr>contents = ''a,b'', position = 0\<rparr>\<rparr>"
  let ?u = "\<lparr>category_index = 3, conversion_index = 2, text_typed = [],
             file_uploaded = Some ?f, button_clicked = True\<rparr>"
  let ?w = "\<lparr>converter = FileConverter_init L, page = []\<rparr>"
  let ?rows =
    "[(''JSON to YAML'', \<lparr>input_kind = ''json'', output_kind = ''yaml'', available = True\<rparr>),
      (''YAML to JSON'', \<lparr>input_kind = ''yaml'', output_kind = ''json'', available = True\<rparr>),
      (''CSV to HTML Table'', \<lparr>input_kind = ''csv'', output_kind = ''html'', available = True\<rparr>)]"
  let ?info = "\<lparr>input_kind = ''csv'', output_kind = ''html'', available = True\<rparr>"
  have listed: "available_conversions ?rows
                  = [''JSON to YAML'', ''YAML to JSON'', ''CSV to HTML Table'']"
    by (simp add: available_conversions_def)
  have sel: "category_index ?u < length (supported_conversions (converter ?w))"
    by (simp add: registry_rows(3))
  have row: "supported_conversions (converter ?w) ! category_index ?u
               = (''Text Conversions'', ?rows)"
    using registry_rows(2) [of L] by simp
  have keys: "distinct (map fst (supported_conversions (converter ?w)))"
    by (simp add: registry_rows(4))
  have pick: "conversion_index ?u < length (available_conversions ?rows)"
      "available_conversions ?rows ! conversion_index ?u = ''CSV to HTML Table''"
    by (simp_all add: listed)
  have info: "map_of ?rows ''CSV to HTML Table'' = Some ?info"
    by simp
  have kind: "input_kind ?info \<noteq> ''base64''"
    by simp
  from render_routes [OF sel row keys pick info kind, of L]
  obtain w' where "snd (render_file_converter L ?u ?w)
      = handle_file_input L ?u ''CSV to HTML Table'' (input_kind ?info) (output_kind ?info) w'"
    by auto
  moreover have "file_uploaded ?u = Some ?f" and "button_clicked ?u"
    by simp_all
  from handle_file_input_csv_to_html_table [OF this, of L "input_kind ?info" "output_kind ?info" w']
  obtain evs where "page (handle_file_input L ?u ''CSV to HTML Table'' (input_kind ?info)
        (output_kind ?info) w')
      = page w' @ evs @ [file_not_implemented ''CSV to HTML Table'', StError ''Conversion failed!'']"
    by blast
  ultimately have "page (snd (render_file_converter L ?u ?w))
      = (page w' @ evs) @ [file_not_implemented ''CSV to HTML Table'', StError ''Conversion failed!'']"
    by simp
  then show ?thesis by blast
qed

text \<open>
  C5 fails on the code. ``JSON to CSV'' is listed as available in ``Data Conversions'';
  its input kind \<open>json\<close> sends it to the text form, whose dispatch \<open>convert_text\<close> has no
  branch for it: the page ends with ``Text conversion type 'JSON to CSV' not
  implemented'' and ``Conversion failed!''. The routine \<open>json_to_csv\<close> exists and
  \<open>convert_file\<close> would call it, but no path of the page reaches it. In the same way
  ``CSV to HTML Table'', available in ``Text Conversions'', has its branch in
  \<open>convert_text\<close> while its input kind \<open>csv\<close> sends it to the file form and
  \<open>convert_file\<close>.
\<close>

theorem available_entries_not_implemented:
  "available_conversions (snd (supported_conversions (FileConverter_init L) ! 1))
       = [''CSV to JSON'', ''JSON to CSV'', ''Excel to CSV'', ''CSV to Excel'']
   \<and> (\<exists>evs. page (snd (render_file_converter L
          \<lparr>category_index = 1, conversion_index = 1, text_typed = ''[{\"a\": 1}]'',
           file_uploaded = None, button_clicked = True\<rparr>
          \<lparr>converter = FileConverter_init L, page = []\<rparr>))
        = evs @ [text_not_implemented ''JSON to CSV'', StError ''Conversion failed!''])
   \<and> fst (convert_file L f ''JSON to CSV'' ''json'' ''csv'' w)
       = (case fst (json_to_csv L f) of Inr v \<Rightarrow> v | Inl e \<Rightarrow> PyNone)
   \<and> available_conversions (snd (supported_conversions (FileConverter_init L) ! 3))
       = [''JSON to YAML'', ''YAML to JSON'', ''CSV to HTML Table'']
   \<and> (\<exists>evs. page (snd (render_file_converter L
          \<lparr>category_index = 3, conversion_index = 2, text_typed = [],
           file_uploaded = Some \<lparr>name = ''table.csv'',
                                 buffer = \<lparr>contents = ''a,b'', position = 0\<rparr>\<rparr>,
           button_clicked = True\<rparr>
          \<lparr>converter = FileConverter_init L, page = []\<rparr>))
        = evs @ [file_not_implemented ''CSV to HTML Table'', StError ''Conversion failed!''])
   \<and> fst (convert_text L t ''CSV to HTML Table'' ''csv'' ''html'' w)
       = (case csv_text_to_html t of Inr v \<Rightarrow> v | Inl e \<Rightarrow> PyNone)"
proof (intro conjI)
  show "available_conversions (snd (supported_conversions (FileConverter_init L) ! 1))
          = [''CSV to JSON'', ''JSON to CSV'', ''Excel to CSV'', ''CSV to Excel'']"
    using registry_rows(1) [of L] by (simp add: available_conversions_def)
  show "available_conversions (snd (supported_conversions (FileConverter_init L) ! 3))
          = [''JSON to YAML'', ''YAML to JSON'', ''CSV to HTML Table'']"
    using registry_rows(2) [of L] by (simp add: available_conversions_def)
  show "fst (convert_file L f ''JSON to CSV'' ''json'' ''csv'' w)
       = (case fst (json_to_csv L f) of Inr v \<Rightarrow> v | Inl e \<Rightarrow> PyNone)"
    by (simp add: convert_file_def caught_frame case_prod_beta)
  show "fst (convert_text L t ''CSV to HTML Table'' ''csv'' ''html'' w)
       = (case csv_text_to_html t of Inr v \<Rightarrow> v | Inl e \<Rightarrow> PyNone)"
    by (simp add: convert_text_def caught_frame)
qed (rule json_to_csv_page csv_to_html_table_page)+



lemma base64_hi: "base64_encode ''hi'' = ''aGk=''"
  by (simp add: base64_encode_def base64_alphabet_def)

lemma base64_empty: "base64_encode [] = []"
  by (simp add: base64_encode_def)

lemma image_to_base64_reads:
  "image_to_base64 L f =
     (Inr (PyStr (''data:image/'' @ str_lower L (last (split (name f) ''.'')) @ '';base64,''
                  @ b64encode L (drop (position (buffer f)) (contents (buffer f))))),
      f\<lparr>buffer := (buffer f)\<lparr>position :=
            max (position (buffer f)) (length (contents (buffer f)))\<rparr>\<rparr>)"
  by (simp add: image_to_base64_def read_def Let_def)

lemma convert_file_image_to_base64:
  "convert_file L f ''Image to Base64'' i o' w =
     (PyStr (''data:image/'' @ str_lower L (last (split (name f) ''.'')) @ '';base64,''
             @ b64encode L (drop (position (buffer f)) (contents (buffer f)))),
      f\<lparr>buffer := (buffer f)\<lparr>position :=
            max (position (buffer f)) (length (contents (buffer f)))\<rparr>\<rparr>,
      w)"
  by (simp add: convert_file_def caught_def image_to_base64_reads)

lemma extension_png: "str_lower bare_libs (last (split ''pic.png'' ''.'')) = ''png''"
  by (simp add: bare_libs_def split_def ascii_lower_def lower_char_def)

text \<open>
  C9, as the specification states it, fails. Two calls with the same entry name,
  ``Image to Base64'', on the same upload (\<open>pic.png\<close>, the two bytes \<open>hi\<close>) give two
  outputs: the first reads the upload and returns \<open>data:image/png;base64,aGk=\<close>, leaving
  the upload at its end; the second finds nothing left to read and returns
  \<open>data:image/png;base64,\<close>.
\<close>

theorem repeated_conversion_counterexample:
  "convert_file bare_libs
      \<lparr>name = ''pic.png'', buffer = \<lparr>contents = ''hi'', position = 0\<rparr>\<rparr>
      ''Image to Base64'' ''image'' ''base64''
      \<lparr>converter = FileConverter_init bare_libs, page = []\<rparr>
     = (PyStr ''data:image/png;base64,aGk='',
        \<lparr>name = ''pic.png'', buffer = \<lparr>contents = ''hi'', position = 2\<rparr>\<rparr>,
        \<lparr>converter = FileConverter_init bare_libs, page = []\<rparr>)
   \<and> convert_file bare_libs
      \<lparr>name = ''pic.png'', buffer = \<lparr>contents = ''hi'', position = 2\<rparr>\<rparr>
      ''Image to Base64'' ''image'' ''base64''
      \<lparr>converter = FileConverter_init bare_libs, page = []\<rparr>
     = (PyStr ''data:image/png;base64,'',
        \<lparr>name = ''pic.png'', buffer = \<lparr>contents = ''hi'', position = 2\<rparr>\<rparr>,
        \<lparr>converter = FileConverter_init bare_libs, page = []\<rparr>)
   \<and> PyStr ''data:image/png;base64,aGk='' \<noteq> PyStr ''data:image/png;base64,''"
proof -
  have enc: "b64encode bare_libs = base64_encode"
    by (simp add: bare_libs_def)
  show ?thesis
    by (simp add: convert_file_image_to_base64 extension_png enc base64_hi base64_empty)
qed


lemma rows_unique:
  assumes "(cat1, cv1) \<in> set (supported_conversions (FileConverter_init L))" "(c, info1) \<in> set cv1"
    "(cat2, cv2) \<in> set (supported_conversions (FileConverter_init L))" "(c, info2) \<in> set cv2"
  shows "info1 = info2"
  using assms by (auto simp: FileConverter_init_def)

text \<open>
  C9, amended. With library calls that are functions of their arguments: for an
  entry name of the registry, with the formats its row declares, the result of
  \<open>convert_text\<close> depends on the entry name and the text only, and the result of
  \<open>convert_file\<close>, with the upload as it leaves it, depends on the entry name and on the
  upload as it stands (its name, its bytes and its read position) only; neither depends
  on the page or the converter, and neither changes the converter, and so the
  registry. A call of \<open>convert_file\<close> may read the upload: ``Image to Base64'' encodes
  the bytes from the read position on and leaves the position at the end.
\<close>

theorem convert_is_function_of_upload_state:
  assumes "(cat1, cv1) \<in> set (supported_conversions (FileConverter_init L))"
    and "(entry, info1) \<in> set cv1"
    and "(cat2, cv2) \<in> set (supported_conversions (FileConverter_init L))"
    and "(entry, info2) \<in> set cv2"
  shows "fst (convert_text L t entry (input_kind info1) (output_kind info1) w1)
           = fst (convert_text L t entry (input_kind info2) (output_kind info2) w2)
    \<and> fst (convert_file L f entry (input_kind info1) (output_kind info1) w1)
           = fst (convert_file L f entry (input_kind info2) (output_kind info2) w2)
    \<and> fst (snd (convert_file L f entry (input_kind info1) (output_kind info1) w1))
           = fst (snd (convert_file L f entry (input_kind info2) (output_kind info2) w2))
    \<and> converter (snd (snd (convert_file L f entry (input_kind info1) (output_kind info1) w1)))
           = converter w1
    \<and> converter (snd (convert_text L t entry (input_kind info1) (output_kind info1) w1))
           = converter w1
    \<and> (entry = ''Image to Base64'' \<longrightarrow>
          fst (convert_file L f entry (input_kind info1) (output_kind info1) w1)
            = PyStr (''data:image/'' @ str_lower L (last (split (name f) ''.'')) @ '';base64,''
                     @ b64encode L (drop (position (buffer f)) (contents (buffer f))))
          \<and> fst (snd (convert_file L f entry (input_kind info1) (output_kind info1) w1))
            = f\<lparr>buffer := (buffer f)\<lparr>position :=
                  max (position (buffer f)) (length (contents (buffer f)))\<rparr>\<rparr>)"
proof -
  from rows_unique [OF assms] have same: "info1 = info2" .
  show ?thesis
    unfolding same
    using convert_file_pure [of L f entry "input_kind info2" "output_kind info2" w1
        "input_kind info2" w2]
      convert_text_pure [of L t entry "input_kind info2" "output_kind info2" w1
        "input_kind info2" "output_kind info2" w2]
    by (simp add: convert_file_frame convert_text_frame convert_file_image_to_base64)
qed

theorem convert_is_function_of_upload_state_witness:
  "(''Image Conversions'',
      [(''PNG to JPG'', \<lparr>input_kind = ''png'', output_kind = ''jpg'', available = True\<rparr>),
       (''JPG to PNG'', \<lparr>input_kind = ''jpg'', output_kind = ''png'', available = True\<rparr>),
       (''Image to Base64'',
          \<lparr>input_kind = ''image'', output_kind = ''base64'', available = True\<rparr>),
       (''Base64 to Image'',
          \<lparr>input_kind = ''base64'', output_kind = ''image'', available = True\<rparr>)])
     \<in> set (supported_conversions (FileConverter_init bare_libs))
   \<and> fst (convert_file bare_libs
            \<lparr>name = ''pic.png'', buffer = \<lparr>contents = ''hi'', position = 0\<rparr>\<rparr>
            ''Image to Base64'' ''image'' ''base64''
            \<lparr>converter = FileConverter_init bare_libs, page = []\<rparr>)
     = fst (convert_file bare_libs
            \<lparr>name = ''pic.png'', buffer = \<lparr>contents = ''hi'', position = 0\<rparr>\<rparr>
            ''Image to Base64'' ''image'' ''base64''
            \<lparr>converter = \<lparr>supported_conversions = []\<rparr>, page = [StInfo ''earlier'']\<rparr>)
   \<and> fst (convert_file bare_libs
            \<lparr>name = ''pic.png'', buffer = \<lparr>contents = ''hi'', position = 0\<rparr>\<rparr>
            ''Image to Base64'' ''image'' ''base64''
            \<lparr>converter = FileConverter_init bare_libs, page = []\<rparr>)
     = PyStr ''data:image/png;base64,aGk=''
   \<and> fst (snd (convert_file bare_libs
            \<lparr>name = ''pic.png'', buffer = \<lparr>contents = ''hi'', position = 0\<rparr>\<rparr>
            ''Image to Base64'' ''image'' ''base64''
            \<lparr>converter = FileConverter_init bare_libs, page = []\<rparr>))
     = \<lparr>name = ''pic.png'', buffer = \<lparr>contents = ''hi'', position = 2\<rparr>\<rparr>
   \<and> converter (snd (snd (convert_file bare_libs
            \<lparr>name = ''pic.png'', buffer = \<lparr>contents = ''hi'', position = 0\<rparr>\<rparr>
            ''Image to Base64'' ''image'' ''base64''
            \<lparr>converter = FileConverter_init bare_libs, page = []\<rparr>)))
     = FileConverter_init bare_libs"
proof -
  let ?rows =
    "[(''PNG to JPG'', \<lparr>input_kind = ''png'', output_kind = ''jpg'', available = True\<rparr>),
      (''JPG to PNG'', \<lparr>input_kind = ''jpg'', output_kind = ''png'', available = True\<rparr>),
      (''Image to Base64'', \<lparr>input_kind = ''image'', output_kind = ''base64'', available = True\<rparr>),
      (''Base64 to Image'', \<lparr>input_kind = ''base64'', output_kind = ''image'', available = True\<rparr>)]"
  let ?info = "\<lparr>input_kind = ''image'', output_kind = ''base64'', available = True\<rparr>"
  let ?f = "\<lparr>name = ''pic.png'', buffer = \<lparr>contents = ''hi'', position = 0\<rparr>\<rparr>"
  let ?w1 = "\<lparr>converter = FileConverter_init bare_libs, page = []\<rparr>"
  let ?w2 = "\<lparr>converter = \<lparr>supported_conversions = []\<rparr>, page = [StInfo ''earlier'']\<rparr>"
  have cat: "(''Image Conversions'', ?rows)
      \<in> set (supported_conversions (FileConverter_init bare_libs))"
    by (simp add: FileConverter_init_def)
  have row: "(''Image to Base64'', ?info) \<in> set ?rows"
    by simp
  have enc: "b64encode bare_libs = base64_encode"
    by (simp add: bare_libs_def)
  note depends = convert_is_function_of_upload_state [OF cat row cat row,
      where t = "[]" and ?w1.0 = ?w1 and ?w2.0 = ?w2 and f = ?f]
  from depends [THEN conjunct2, THEN conjunct1]
  have same: "fst (convert_file bare_libs ?f ''Image to Base64'' ''image'' ''base64'' ?w1)
      = fst (convert_file bare_libs ?f ''Image to Base64'' ''image'' ''base64'' ?w2)"
    by simp
  from depends [THEN conjunct2, THEN conjunct2, THEN conjunct2, THEN conjunct1]
  have kept: "converter (snd (snd (convert_file bare_libs ?f ''Image to Base64'' ''image''
      ''base64'' ?w1))) = FileConverter_init bare_libs"
    by simp
  note reads = depends [THEN conjunct2, THEN conjunct2, THEN conjunct2, THEN conjunct2,
      THEN conjunct2, rule_format, OF refl]
  from reads [THEN conjunct1]
  have val: "fst (convert_file bare_libs ?f ''Image to Base64'' ''image'' ''base64'' ?w1)
      = PyStr ''data:image/png;base64,aGk=''"
    by (simp add: extension_png enc base64_hi)
  from reads [THEN conjunct2]
  have left: "fst (snd (convert_file bare_libs ?f ''Image to Base64'' ''image'' ''base64'' ?w1))
      = \<lparr>name = ''pic.png'', buffer = \<lparr>contents = ''hi'', position = 2\<rparr>\<rparr>"
    by simp
  from cat same val left kept show ?thesis
    by (intro conjI)
qed

end
